theory Spec2Isabelle
  imports Complex_Main
begin

section \<open>Route compiler of exile-leveling: \<^verbatim>\<open>src/common/routes/index.ts\<close>\<close>

text \<open>
  A shallow embedding of the route compiler. JavaScript strings are modelled as
  \<^typ>\<open>string\<close>, one \<^typ>\<open>char\<close> per UTF-16 code unit below 256. A \<^verbatim>\<open>Set\<close> is a
  list in insertion order without duplicates; a \<^verbatim>\<open>Record\<close> read at an absent key
  yields \<^verbatim>\<open>undefined\<close>, or the property of that name that every object inherits. A
  property read on \<^verbatim>\<open>undefined\<close> raises a \<^verbatim>\<open>TypeError\<close>; every such read of the
  source is a \<open>Throws\<close> branch of the model. Three field names are taken in Isabelle and carry a
  prime: \<open>id'\<close> of an area, \<open>note'\<close> of a required gem, \<open>action'\<close> of a result.
\<close>

subsection \<open>Data model\<close>

record Area =
  id' :: string
  act :: int
  name :: string
  connection_ids :: "string list"
  is_town_area :: bool
  has_waypoint :: bool
  crafting_recipes :: "string list"

text \<open>
  The module \<^verbatim>\<open>common/data\<close> is not part of the sources at hand; its two tables are
  parameters of every function below. They are plain objects, as an object literal or
  parsed JSON gives them. \<open>areas\<close> lists the own entries of the area table in the
  enumeration order of \<^verbatim>\<open>for (const key in areas)\<close>; \<open>killWaypoints\<close> maps the own keys
  of the other table.
\<close>

record Data =
  areas :: "(string \<times> Area) list"
  killWaypoints :: "string \<rightharpoonup> string list"

text \<open>The own entry of the area table at a key.\<close>

definition areas_at :: "Data \<Rightarrow> string \<Rightarrow> Area option" where
  "areas_at D k = map_of (areas D) k"

text \<open>
  What \<^verbatim>\<open>table[key]\<close> yields on a plain object: the own entry; or, at a key the table
  does not own, the property of \<^verbatim>\<open>Object.prototype\<close> of that name (a function, or
  \<^verbatim>\<open>Object.prototype\<close> itself at \<^verbatim>\<open>__proto__\<close>); or \<^verbatim>\<open>undefined\<close>. An inherited value is
  truthy, is not iterable, and has none of the fields of an area: \<^verbatim>\<open>id\<close>,
  \<^verbatim>\<open>connection_ids\<close>, \<^verbatim>\<open>is_town_area\<close>, \<^verbatim>\<open>has_waypoint\<close> and \<^verbatim>\<open>crafting_recipes\<close>
  read on it are \<^verbatim>\<open>undefined\<close>.
\<close>

datatype 'a property = Undefined | Own 'a | Inherited

definition Object_prototype_keys :: "string list" where
  "Object_prototype_keys =
     [''constructor'', ''__defineGetter__'', ''__defineSetter__'', ''hasOwnProperty'',
      ''__lookupGetter__'', ''__lookupSetter__'', ''isPrototypeOf'',
      ''propertyIsEnumerable'', ''toString'', ''valueOf'', ''__proto__'',
      ''toLocaleString'']"

definition get_property :: "(string \<rightharpoonup> 'a) \<Rightarrow> string \<Rightarrow> 'a property" where
  "get_property own k = (case own k of
       Some v \<Rightarrow> Own v
     | None \<Rightarrow> if k \<in> set Object_prototype_keys then Inherited else Undefined)"

text \<open>\<^verbatim>\<open>areas[key]\<close>\<close>

definition areas_index :: "Data \<Rightarrow> string \<Rightarrow> Area property" where
  "areas_index D k = get_property (areas_at D) k"

type_synonym ParsedAction = "string list"

datatype ParsedSubStep = Txt string | Tok ParsedAction

type_synonym ParsedActionStep = "ParsedSubStep list"

record RequiredGem =
  gem_id :: string
  note' :: string

record BuildData =
  characterClass :: string
  requiredGems :: "RequiredGem list"

text \<open>The keys of \<open>towns\<close> are act numbers, which are no names of inherited properties.\<close>

record RouteLookup =
  towns :: "int \<rightharpoonup> string"
  buildData :: "BuildData option"

text \<open>
  \<open>currentAreaId\<close> is \<^term>\<open>None\<close> when the field holds \<^verbatim>\<open>undefined\<close> (it is assigned
  \<^verbatim>\<open>lookup.towns[currentArea.act]\<close>, which may be absent). \<open>portalAreaId\<close> is
  \<^term>\<open>None\<close> for \<^verbatim>\<open>null\<close> and for \<^verbatim>\<open>undefined\<close>, which the source cannot tell apart.
  \<open>craftingAreas\<close> can hold \<^verbatim>\<open>undefined\<close> (\<^term>\<open>None\<close>): \<^verbatim>\<open>crafting\<close> adds the
  \<^verbatim>\<open>id\<close> of what it read from the area table, also when that is an inherited value.
  The three waypoint sets hold ids only: every \<^verbatim>\<open>add\<close> to them follows a truthy
  \<^verbatim>\<open>has_waypoint\<close> or a membership test of the value added.
\<close>

record RouteState =
  implicitWaypoints :: "string list"
  explicitWaypoints :: "string list"
  usedWaypoints :: "string list"
  craftingAreas :: "string option list"
  currentAreaId :: "string option"
  lastTownAreaId :: string
  portalAreaId :: "string option"
  acquiredGems :: "string list"

text \<open>
  A JavaScript number: a double, kept as the rational it denotes; \<open>Infinity True\<close> is
  \<^verbatim>\<open>-Infinity\<close>. The sign of zero is not represented (\<^verbatim>\<open>-0\<close> is \<^verbatim>\<open>0\<close>); the
  operations of this module do not tell the two zeros apart but in the sign of a zero
  result.
\<close>

datatype number = NaN | Infinity bool | Finite rat

text \<open>
  The types \<^verbatim>\<open>QuestAction\<close>, \<^verbatim>\<open>QuestTextAction\<close> and \<^verbatim>\<open>RewardStep\<close> come from the
  module \<^verbatim>\<open>./quest\<close>, which is not part of the sources at hand: \<^typ>\<open>'q\<close> stands for them.
\<close>

datatype 'q Action =
    KillAction string
  | ArenaAction string
  | AreaAction "string option"
  | EnterAction string
  | TownAction
  | WaypointAction "string option"
  | GetWaypointAction
  | SetPortalAction
  | UsePortalAction
  | QuestAction 'q
  | QuestTextAction 'q
  | GenericAction string
  | TrialAction
  | AscendAction
  | DirectionAction number
  | CraftingAction "string list option"

datatype 'q Part = Text string | Act "'q Action"

datatype 'q Step = ActionStep "'q Part list" | RewardStep 'q

type_synonym 'q Route = "'q Step list"

record 'q EvaluateResult =
  action' :: "'q Action option"
  additionalSteps :: "'q Step list option"

text \<open>What a call of an evaluator does: raise a \<^verbatim>\<open>TypeError\<close>, or return a diagnostic
  string (\<open>Inl\<close>) or a result (\<open>Inr\<close>), together with the state as the call leaves it.\<close>

datatype 'q ret = Throws | Returns "string + 'q EvaluateResult" RouteState

type_synonym 'q Evaluator = "ParsedAction \<Rightarrow> RouteLookup \<Rightarrow> RouteState \<Rightarrow> 'q ret"

record 'q Quest =
  EvaluateQuest :: "'q Evaluator"
  EvaluateQuestText :: "'q Evaluator"

definition ERROR_INVALID_FORMAT :: string where
  "ERROR_INVALID_FORMAT = ''invalid format''"

definition ERROR_MISSING_AREA :: string where
  "ERROR_MISSING_AREA = ''area does not exist''"

definition ERROR_AREA_NO_WAYPOINT :: string where
  "ERROR_AREA_NO_WAYPOINT = ''area does not have a waypoint''"

subsection \<open>JavaScript primitives\<close>

definition Set_add :: "'a \<Rightarrow> 'a list \<Rightarrow> 'a list" where
  "Set_add x xs = (if x \<in> set xs then xs else xs @ [x])"

definition Set_has :: "'a list \<Rightarrow> 'a \<Rightarrow> bool" where
  "Set_has xs x = (x \<in> set xs)"

text \<open>The property key an area id is converted to when it indexes a table.\<close>

definition prop_key :: "string option \<Rightarrow> string" where
  "prop_key v = (case v of None \<Rightarrow> ''undefined'' | Some k \<Rightarrow> k)"

definition success :: "'q Action \<Rightarrow> RouteState \<Rightarrow> 'q ret" where
  "success a s = Returns (Inr \<lparr>action' = Some a, additionalSteps = None\<rparr>) s"

definition failure :: "string \<Rightarrow> RouteState \<Rightarrow> 'q ret" where
  "failure e s = Returns (Inl e) s"

subsubsection \<open>Doubles\<close>

function bitlen :: "int \<Rightarrow> nat" where
  "bitlen n = (if n \<le> 0 then 0 else Suc (bitlen (n div 2)))"
  by pat_completeness auto
termination
  by (relation "measure nat") auto

declare bitlen.simps [simp del]

definition pow2 :: "int \<Rightarrow> rat" where
  "pow2 e = (if 0 \<le> e then 2 ^ nat e else 1 / 2 ^ nat (- e))"

text \<open>For \<open>0 < x\<close>, the integer \<open>e\<close> with \<open>2\<^sup>e \<le> x < 2\<^sup>e\<^sup>+\<^sup>1\<close>.\<close>

definition ilog2 :: "rat \<Rightarrow> int" where
  "ilog2 x = (case quotient_of x of (p, q) \<Rightarrow>
     (let e0 = int (bitlen p) - int (bitlen q)
      in if pow2 e0 \<le> x then e0 else e0 - 1))"

definition round_half_even :: "rat \<Rightarrow> int" where
  "round_half_even y = (let f = \<lfloor>y\<rfloor>; d = y - of_int f
     in if d < 1 / 2 then f else if 1 / 2 < d then f + 1
        else if even f then f else f + 1)"

text \<open>
  The double nearest to a rational, ties to the even significand: 53 bits of
  significand, exponents down to the subnormal range, infinity from \<open>2\<^sup>1\<^sup>0\<^sup>2\<^sup>4\<close> on.
\<close>

definition to_double :: "rat \<Rightarrow> number" where
  "to_double x = (if x = 0 then Finite 0 else
     (let a = \<bar>x\<bar>; e = max (ilog2 a) (- 1022); q = pow2 (e - 52);
          r = of_int (round_half_even (a / q)) * q
      in if r \<noteq> 0 \<and> 1024 \<le> ilog2 r then Infinity (x < 0)
         else Finite (if x < 0 then - r else r)))"

text \<open>\<^verbatim>\<open>a % b\<close>: the remainder of the division truncated towards zero, which is exact.\<close>

definition js_rem :: "number \<Rightarrow> number \<Rightarrow> number" where
  "js_rem x y = (case (x, y) of
       (Finite a, Finite b) \<Rightarrow>
         (if b = 0 then NaN
          else Finite (a - b * of_int (if 0 \<le> a / b then \<lfloor>a / b\<rfloor> else \<lceil>a / b\<rceil>)))
     | (Finite a, Infinity _) \<Rightarrow> Finite a
     | _ \<Rightarrow> NaN)"

definition js_add :: "number \<Rightarrow> number \<Rightarrow> number" where
  "js_add x y = (case (x, y) of
       (Finite a, Finite b) \<Rightarrow> to_double (a + b)
     | (Finite a, Infinity n) \<Rightarrow> Infinity n
     | (Infinity n, Finite b) \<Rightarrow> Infinity n
     | (Infinity n, Infinity m) \<Rightarrow> (if n = m then Infinity n else NaN)
     | _ \<Rightarrow> NaN)"

text \<open>\<^verbatim>\<open>a / b\<close> for a nonzero finite divisor, the only case the source has.\<close>

definition js_div :: "number \<Rightarrow> rat \<Rightarrow> number" where
  "js_div x b = (case x of
       Finite a \<Rightarrow> to_double (a / b)
     | Infinity n \<Rightarrow> Infinity (n \<noteq> (b < 0))
     | NaN \<Rightarrow> NaN)"

definition js_lt :: "number \<Rightarrow> number \<Rightarrow> bool" where
  "js_lt x y = (case (x, y) of
       (Finite a, Finite b) \<Rightarrow> a < b
     | (Finite a, Infinity n) \<Rightarrow> \<not> n
     | (Infinity n, Finite b) \<Rightarrow> n
     | (Infinity n, Infinity m) \<Rightarrow> n \<and> \<not> m
     | _ \<Rightarrow> False)"

definition Math_floor :: "number \<Rightarrow> number" where
  "Math_floor x = (case x of Finite a \<Rightarrow> Finite (of_int \<lfloor>a\<rfloor>) | _ \<Rightarrow> x)"

definition isNaN :: "number \<Rightarrow> bool" where
  "isNaN x = (x = NaN)"

subsubsection \<open>\<^verbatim>\<open>Number.parseFloat\<close>\<close>

text \<open>The white space of \<^verbatim>\<open>\s\<close> and of string-to-number conversion, below code unit 256.\<close>

definition is_space :: "char \<Rightarrow> bool" where
  "is_space c = (of_char c \<in> {9, 10, 11, 12, 13, 32, 160 :: nat})"

definition is_digit :: "char \<Rightarrow> bool" where
  "is_digit c = (48 \<le> (of_char c :: nat) \<and> (of_char c :: nat) \<le> 57)"

definition digits_val :: "string \<Rightarrow> int" where
  "digits_val ds = foldl (\<lambda>n c. 10 * n + (of_char c - 48)) 0 ds"

definition pow10 :: "int \<Rightarrow> rat" where
  "pow10 e = (if 0 \<le> e then 10 ^ nat e else 1 / 10 ^ nat (- e))"

definition strip_sign :: "string \<Rightarrow> bool \<times> string" where
  "strip_sign t = (case t of
       [] \<Rightarrow> (False, [])
     | c # r \<Rightarrow> if c = CHR ''-'' then (True, r)
                else if c = CHR ''+'' then (False, r) else (False, t))"

definition exponent_part :: "string \<Rightarrow> int" where
  "exponent_part t = (case t of
       [] \<Rightarrow> 0
     | c # r \<Rightarrow>
        if c = CHR ''e'' \<or> c = CHR ''E'' then
          (case strip_sign r of (neg, r') \<Rightarrow>
            (let ds = takeWhile is_digit r'
             in if ds = [] then 0
                else if neg then - digits_val ds else digits_val ds))
        else 0)"

text \<open>
  The longest prefix of the trimmed string that is a decimal literal, rounded to a
  double; \<open>NaN\<close> when there is none.
\<close>

definition parseFloat :: "string \<Rightarrow> number" where
  "parseFloat str = (case strip_sign (dropWhile is_space str) of (neg, t) \<Rightarrow>
     if take 8 t = ''Infinity'' then Infinity neg
     else
       (let ds1 = takeWhile is_digit t; r1 = dropWhile is_digit t;
            dot = (r1 \<noteq> [] \<and> hd r1 = CHR ''.'');
            ds2 = (if dot then takeWhile is_digit (tl r1) else []);
            r2 = (if dot then dropWhile is_digit (tl r1) else r1)
        in if ds1 = [] \<and> ds2 = [] then NaN
           else
             (let mv = of_int (digits_val (ds1 @ ds2))
                         * pow10 (exponent_part r2 - int (length ds2))
              in to_double (if neg then - mv else mv))))"

subsection \<open>Evaluators\<close>

definition EvaluateKill :: "Data \<Rightarrow> 'q Evaluator" where
  "EvaluateKill D action L s =
    (if length action \<noteq> 2 then failure ERROR_INVALID_FORMAT s
     else
       (let bossName = action ! 1
        in case get_property (killWaypoints D) bossName of
             Own waypointUnlocks \<Rightarrow>
               success (KillAction bossName)
                 (s\<lparr>implicitWaypoints := fold Set_add waypointUnlocks (implicitWaypoints s)\<rparr>)
           | Inherited \<Rightarrow> Throws
           | Undefined \<Rightarrow> success (KillAction bossName) s))"

definition EvaluateArena :: "'q Evaluator" where
  "EvaluateArena action L s =
    (if length action \<noteq> 2 then failure ERROR_INVALID_FORMAT s
     else success (ArenaAction (action ! 1)) s)"

definition EvaluateArea :: "Data \<Rightarrow> 'q Evaluator" where
  "EvaluateArea D action L s =
    (if length action \<noteq> 2 then failure ERROR_INVALID_FORMAT s
     else case areas_index D (action ! 1) of
            Undefined \<Rightarrow> failure ERROR_MISSING_AREA s
          | Own area \<Rightarrow> success (AreaAction (Some (id' area))) s
          | Inherited \<Rightarrow> success (AreaAction None) s)"

text \<open>At an inherited value, \<^verbatim>\<open>area.connection_ids.some\<close> is a read on \<^verbatim>\<open>undefined\<close>.\<close>

definition EvaluateEnter :: "Data \<Rightarrow> 'q Evaluator" where
  "EvaluateEnter D action L s =
    (if length action \<noteq> 2 then failure ERROR_INVALID_FORMAT s
     else case areas_index D (action ! 1) of
            Undefined \<Rightarrow> failure ERROR_MISSING_AREA s
          | Inherited \<Rightarrow> Throws
          | Own area \<Rightarrow>
              if \<not> list_ex (\<lambda>x. Some x = currentAreaId s) (connection_ids area)
              then failure ''not connected to current area'' s
              else
                (let s1 = (if is_town_area area
                           then (let s0 = s\<lparr>lastTownAreaId := id' area\<rparr>
                                 in if has_waypoint area
                                    then s0\<lparr>implicitWaypoints :=
                                              Set_add (id' area) (implicitWaypoints s0)\<rparr>
                                    else s0)
                           else s)
                 in success (EnterAction (id' area)) (s1\<lparr>currentAreaId := Some (id' area)\<rparr>)))"

definition EvaluateTown :: "Data \<Rightarrow> 'q Evaluator" where
  "EvaluateTown D action L s =
    (if length action \<noteq> 1 then failure ERROR_INVALID_FORMAT s
     else
       (let area = areas_index D (prop_key (currentAreaId s))
        in success TownAction (s\<lparr>currentAreaId := Some (lastTownAreaId s)\<rparr>)))"

text \<open>
  At an inherited target \<^verbatim>\<open>area.id\<close> is \<^verbatim>\<open>undefined\<close>, which neither waypoint set
  holds; at an inherited current area \<^verbatim>\<open>has_waypoint\<close> is \<^verbatim>\<open>undefined\<close>.
\<close>

definition EvaluateWaypoint :: "Data \<Rightarrow> 'q Evaluator" where
  "EvaluateWaypoint D action L s =
    (if length action \<noteq> 1 \<and> length action \<noteq> 2 then failure ERROR_INVALID_FORMAT s
     else if length action = 2 then
       (case areas_index D (action ! 1) of
          Undefined \<Rightarrow> failure ERROR_MISSING_AREA s
        | Inherited \<Rightarrow> failure ''missing target waypoint'' s
        | Own area \<Rightarrow>
            if \<not> Set_has (implicitWaypoints s) (id' area)
               \<and> \<not> Set_has (explicitWaypoints s) (id' area)
            then failure ''missing target waypoint'' s
            else
              (case areas_index D (prop_key (currentAreaId s)) of
                 Undefined \<Rightarrow> Throws
               | Inherited \<Rightarrow> failure ERROR_AREA_NO_WAYPOINT s
               | Own currentArea \<Rightarrow>
                   if \<not> has_waypoint currentArea then failure ERROR_AREA_NO_WAYPOINT s
                   else success (WaypointAction (Some (id' area)))
                          (s\<lparr>implicitWaypoints := Set_add (id' currentArea) (implicitWaypoints s),
                             usedWaypoints := Set_add (id' area) (usedWaypoints s),
                             currentAreaId := Some (id' area)\<rparr>)))
     else success (WaypointAction None) s)"

definition EvaluateGetWaypoint :: "Data \<Rightarrow> 'q Evaluator" where
  "EvaluateGetWaypoint D action L s =
    (if length action \<noteq> 1 then failure ERROR_INVALID_FORMAT s
     else case areas_index D (prop_key (currentAreaId s)) of
            Undefined \<Rightarrow> failure ERROR_MISSING_AREA s
          | Inherited \<Rightarrow> failure ERROR_AREA_NO_WAYPOINT s
          | Own area \<Rightarrow>
              if \<not> has_waypoint area then failure ERROR_AREA_NO_WAYPOINT s
              else if Set_has (implicitWaypoints s) (id' area)
              then failure ''waypoint already acquired'' s
              else success GetWaypointAction
                     (s\<lparr>explicitWaypoints := Set_add (id' area) (explicitWaypoints s)\<rparr>))"

definition EvaluateSetPortal :: "'q Evaluator" where
  "EvaluateSetPortal action L s =
    (if length action \<noteq> 1 then failure ERROR_INVALID_FORMAT s
     else success SetPortalAction (s\<lparr>portalAreaId := currentAreaId s\<rparr>))"

text \<open>\<^verbatim>\<open>!state.portalAreaId\<close> holds for \<^verbatim>\<open>null\<close> and for the empty string.\<close>

definition truthy :: "string option \<Rightarrow> bool" where
  "truthy v = (case v of None \<Rightarrow> False | Some k \<Rightarrow> k \<noteq> [])"

text \<open>
  At an inherited current area \<^verbatim>\<open>currentArea.id\<close> is \<^verbatim>\<open>undefined\<close>, which is not the
  portal area (a non-empty string at that point), and \<^verbatim>\<open>is_town_area\<close> is
  \<^verbatim>\<open>undefined\<close>.
\<close>

definition EvaluateUsePortal :: "Data \<Rightarrow> 'q Evaluator" where
  "EvaluateUsePortal D action L s =
    (if length action \<noteq> 1 then failure ERROR_INVALID_FORMAT s
     else if \<not> truthy (portalAreaId s) then failure ''portal must be set'' s
     else case areas_index D (prop_key (currentAreaId s)) of
            Undefined \<Rightarrow> Throws
          | Inherited \<Rightarrow> failure ''can only use portal from town or portal area'' s
          | Own currentArea \<Rightarrow>
              if Some (id' currentArea) = portalAreaId s
              then success UsePortalAction
                     (s\<lparr>portalAreaId := currentAreaId s,
                        currentAreaId := towns L (act currentArea)\<rparr>)
              else if \<not> is_town_area currentArea
              then failure ''can only use portal from town or portal area'' s
              else success UsePortalAction
                     (s\<lparr>currentAreaId := portalAreaId s, portalAreaId := None\<rparr>))"

definition EvaluateGeneric :: "'q Evaluator" where
  "EvaluateGeneric action L s =
    (if length action \<noteq> 2 then failure ERROR_INVALID_FORMAT s
     else success (GenericAction (action ! 1)) s)"

definition EvaluateTrial :: "'q Evaluator" where
  "EvaluateTrial action L s =
    (if length action \<noteq> 1 then failure ERROR_INVALID_FORMAT s
     else success TrialAction s)"

text \<open>
  \<^verbatim>\<open>Labyrinth_Airlock\<close> is no key of \<^verbatim>\<open>Object.prototype\<close>: \<^verbatim>\<open>areas[expectedAreaId]\<close> is
  the own entry or \<^verbatim>\<open>undefined\<close>. At an inherited current area \<^verbatim>\<open>currentArea.id\<close> is
  \<^verbatim>\<open>undefined\<close>, which is not the expected id.
\<close>

definition EvaluateAscend :: "Data \<Rightarrow> 'q Evaluator" where
  "EvaluateAscend D action L s =
    (if length action \<noteq> 1 then failure ERROR_INVALID_FORMAT s
     else
       (let expectedAreaId = ''Labyrinth_Airlock'';
            mustBeIn = (case areas_at D expectedAreaId of
                          None \<Rightarrow> Throws
                        | Some expectedArea \<Rightarrow>
                            failure (''must be in '' @ [CHR 0x22] @ name expectedArea
                                       @ [CHR 0x22]) s)
        in case areas_index D (prop_key (currentAreaId s)) of
             Undefined \<Rightarrow> Throws
           | Inherited \<Rightarrow> mustBeIn
           | Own currentArea \<Rightarrow>
               if id' currentArea \<noteq> expectedAreaId then mustBeIn
               else success AscendAction (s\<lparr>currentAreaId := Some (lastTownAreaId s)\<rparr>)))"

text \<open>\<^verbatim>\<open>action[i]\<close>, \<^verbatim>\<open>undefined\<close> past the end of the array.\<close>

definition at_index :: "'a list \<Rightarrow> nat \<Rightarrow> 'a option" where
  "at_index xs i = (if i < length xs then Some (xs ! i) else None)"

text \<open>
  The last four lines of \<^verbatim>\<open>EvaluateCrafting\<close>, for what was read from the area table
  when it is not \<^verbatim>\<open>undefined\<close>: at an inherited value both \<^verbatim>\<open>area.id\<close> and
  \<^verbatim>\<open>area.crafting_recipes\<close> are \<^verbatim>\<open>undefined\<close>.
\<close>

definition craftingAt :: "Area option \<Rightarrow> RouteState \<Rightarrow> 'q ret" where
  "craftingAt area s =
     success (CraftingAction (map_option crafting_recipes area))
       (s\<lparr>craftingAreas := Set_add (map_option id' area) (craftingAreas s)\<rparr>)"

definition EvaluateCrafting :: "Data \<Rightarrow> 'q Evaluator" where
  "EvaluateCrafting D action L s =
    (if 2 < length action then failure ERROR_INVALID_FORMAT s
     else if length action = 1 then
       (case areas_index D (prop_key (currentAreaId s)) of
          Undefined \<Rightarrow> Throws
        | Inherited \<Rightarrow> craftingAt None s
        | Own area \<Rightarrow> craftingAt (Some area) s)
     else
       (case areas_index D (prop_key (at_index action 1)) of
          Undefined \<Rightarrow> failure ERROR_MISSING_AREA s
        | Inherited \<Rightarrow> craftingAt None s
        | Own area \<Rightarrow> craftingAt (Some area) s))"

definition EvaluateDirection :: "'q Evaluator" where
  "EvaluateDirection action L s =
    (if length action \<noteq> 2 then failure ERROR_INVALID_FORMAT s
     else
       (let parsed = parseFloat (action ! 1)
        in if isNaN parsed then failure ''dir value is not a number'' s
           else
             (let dir0 = js_rem parsed (Finite 360);
                  dir = (if js_lt dir0 (Finite 0) then js_add dir0 (Finite 360) else dir0)
              in if js_rem dir (Finite 45) \<noteq> Finite 0
                 then failure ''dir value must be in intervals of 45'' s
                 else success (DirectionAction (Math_floor (js_div dir 45))) s)))"

text \<open>
  The dispatcher. \<^verbatim>\<open>EvaluateQuest\<close> and \<^verbatim>\<open>EvaluateQuestText\<close> come from the module
  \<^verbatim>\<open>./quest\<close> and are parameters.
\<close>

definition evaluateAction :: "Data \<Rightarrow> 'q Quest \<Rightarrow> 'q Evaluator" where
  "evaluateAction D Q action L s =
    (case action of
       [] \<Rightarrow> failure ERROR_INVALID_FORMAT s
     | verb # _ \<Rightarrow>
         if verb = ''kill'' then EvaluateKill D action L s
         else if verb = ''arena'' then EvaluateArena action L s
         else if verb = ''area'' then EvaluateArea D action L s
         else if verb = ''enter'' then EvaluateEnter D action L s
         else if verb = ''town'' then EvaluateTown D action L s
         else if verb = ''waypoint'' then EvaluateWaypoint D action L s
         else if verb = ''get_waypoint'' then EvaluateGetWaypoint D action L s
         else if verb = ''set_portal'' then EvaluateSetPortal action L s
         else if verb = ''use_portal'' then EvaluateUsePortal D action L s
         else if verb = ''quest'' then EvaluateQuest Q action L s
         else if verb = ''quest_text'' then EvaluateQuestText Q action L s
         else if verb = ''generic'' then EvaluateGeneric action L s
         else if verb = ''trial'' then EvaluateTrial action L s
         else if verb = ''crafting'' then EvaluateCrafting D action L s
         else if verb = ''ascend'' then EvaluateAscend D action L s
         else if verb = ''dir'' then EvaluateDirection action L s
         else failure ERROR_INVALID_FORMAT s)"

definition initializeRouteLookup :: "Data \<Rightarrow> BuildData option \<Rightarrow> RouteLookup" where
  "initializeRouteLookup D bd =
     fold (\<lambda>(k, area) routeLookup.
             if is_town_area area
             then routeLookup\<lparr>towns := (towns routeLookup)(act area \<mapsto> id' area)\<rparr>
             else routeLookup)
          (areas D) \<lparr>towns = Map.empty, buildData = bd\<rparr>"

definition initializeRouteState :: RouteState where
  "initializeRouteState =
     \<lparr>implicitWaypoints = [], explicitWaypoints = [], usedWaypoints = [],
      craftingAreas = [], currentAreaId = Some ''1_1_1'', lastTownAreaId = ''1_1_town'',
      portalAreaId = None, acquiredGems = []\<rparr>"

subsection \<open>The lexer\<close>

text \<open>
  \<^verbatim>\<open>parseStep\<close> runs the regular expression \<^verbatim>\<open>/(\s*#.*)|([^{#]+)|\{(.+?)\}/g\<close> over a
  line. Each of the three functions below matches one alternative at the start of the
  text and returns what is left after the match (and the captured group).
\<close>

definition is_line_terminator :: "char \<Rightarrow> bool" where
  "is_line_terminator c = (c = CHR 0x0A \<or> c = CHR 0x0D)"

text \<open>\<^verbatim>\<open>\s*#.*\<close>: the greedy run of white space must end at a \<^verbatim>\<open>#\<close>.\<close>

definition match_comment :: "string \<Rightarrow> string option" where
  "match_comment t = (case dropWhile is_space t of
       [] \<Rightarrow> None
     | c # r \<Rightarrow> if c = CHR ''#''
                then Some (dropWhile (\<lambda>d. \<not> is_line_terminator d) r) else None)"

text \<open>\<^verbatim>\<open>[^{#]+\<close>\<close>

definition match_text :: "string \<Rightarrow> (string \<times> string) option" where
  "match_text t =
     (let m = takeWhile (\<lambda>c. c \<noteq> CHR ''{'' \<and> c \<noteq> CHR ''#'') t
      in if m = [] then None
         else Some (m, dropWhile (\<lambda>c. c \<noteq> CHR ''{'' \<and> c \<noteq> CHR ''#'') t))"

text \<open>The lazy tail of \<^verbatim>\<open>.+?\}\<close>: stop at the first \<^verbatim>\<open>}\<close>, fail at a line terminator.\<close>

fun lazy_close :: "string \<Rightarrow> (string \<times> string) option" where
  "lazy_close [] = None"
| "lazy_close (d # ds) =
     (if d = CHR ''}'' then Some ([], ds)
      else if is_line_terminator d then None
      else map_option (\<lambda>(m, r). (d # m, r)) (lazy_close ds))"

text \<open>\<^verbatim>\<open>\{(.+?)\}\<close>: the first character after the brace belongs to the group.\<close>

definition match_action :: "string \<Rightarrow> (string \<times> string) option" where
  "match_action t = (case t of
       [] \<Rightarrow> None
     | c # r \<Rightarrow>
         if c \<noteq> CHR ''{'' then None
         else (case r of
                 [] \<Rightarrow> None
               | d # ds \<Rightarrow>
                   if is_line_terminator d then None
                   else map_option (\<lambda>(m, rest). (d # m, rest)) (lazy_close ds)))"

text \<open>\<^verbatim>\<open>String.prototype.split\<close> at a one-character separator.\<close>

fun String_split :: "char \<Rightarrow> string \<Rightarrow> string list" where
  "String_split sep [] = [[]]"
| "String_split sep (c # cs) =
     (if c = sep then [] # String_split sep cs
      else (case String_split sep cs of
              [] \<Rightarrow> [[c]]
            | h # t \<Rightarrow> (c # h) # t))"

text \<open>
  The loop over \<^verbatim>\<open>text.matchAll(regex)\<close>: at each position the alternatives are tried in
  order; a position where none matches is skipped by the search for the next match.
\<close>

function parseStep :: "string \<Rightarrow> ParsedActionStep" where
  "parseStep t =
     (if t = [] then []
      else case match_comment t of
             Some r \<Rightarrow> parseStep r
           | None \<Rightarrow>
               (case match_text t of
                  Some (textMatch, r) \<Rightarrow> Txt textMatch # parseStep r
                | None \<Rightarrow>
                    (case match_action t of
                       Some (actionMatch, r) \<Rightarrow>
                         Tok (String_split (CHR ''|'') actionMatch) # parseStep r
                     | None \<Rightarrow> parseStep (tl t))))"
  by pat_completeness auto
termination
proof (relation "measure length", goal_cases)
  case 1
  show ?case by simp
next
  case (2 t)
  then show ?case by (cases t) auto
next
  case (3 t mr m r)
  have shorter: "lazy_close ds = Some (m', r') \<Longrightarrow> length r' < length ds" for ds m' r'
    by (induction ds arbitrary: m') (auto split: if_splits)
  from 3 show ?case
    by (auto simp: match_action_def split: list.splits if_splits dest!: shorter)
next
  case (4 t mr m r)
  let ?P = "\<lambda>c. c \<noteq> CHR ''{'' \<and> c \<noteq> CHR ''#''"
  from 4 have m: "takeWhile ?P t \<noteq> []" and r: "r = dropWhile ?P t"
    by (auto simp: match_text_def Let_def split: if_splits)
  have "length (takeWhile ?P t) + length (dropWhile ?P t) = length t"
    by (metis length_append takeWhile_dropWhile_id)
  with m r show ?case by (cases "takeWhile ?P t") auto
next
  case (5 t r)
  then obtain c r0 where d: "dropWhile is_space t = c # r0"
    and r: "r = dropWhile (\<lambda>d. \<not> is_line_terminator d) r0"
    by (auto simp: match_comment_def split: list.splits if_splits)
  have "length (dropWhile is_space t) \<le> length t"
    by (rule length_dropWhile_le)
  with d have "length r0 < length t" by simp
  moreover have "length r \<le> length r0"
    unfolding r by (rule length_dropWhile_le)
  ultimately show ?case by simp
qed

declare parseStep.simps [simp del]

subsection \<open>The route assembler\<close>

text \<open>\<^verbatim>\<open>routeSource.split(/(?:\r\n|\r|\n)/g)\<close>\<close>

function split_lines :: "string \<Rightarrow> string list" where
  "split_lines [] = [[]]"
| "split_lines (c # cs) =
     (if c = CHR 0x0D
      then [] # split_lines (if cs \<noteq> [] \<and> hd cs = CHR 0x0A then tl cs else cs)
      else if c = CHR 0x0A then [] # split_lines cs
      else (case split_lines cs of
              [] \<Rightarrow> [[c]]
            | h # t \<Rightarrow> (c # h) # t))"
  by pat_completeness auto
termination
  by (relation "measure length") auto

text \<open>\<^verbatim>\<open>Array.prototype.join\<close>, which also renders an array inside a template literal.\<close>

fun join :: "string \<Rightarrow> string list \<Rightarrow> string" where
  "join sep [] = []"
| "join sep [x] = x"
| "join sep (x # y # ys) = x @ sep @ join sep (y # ys)"

text \<open>
  The loop over the sub-steps of one line. It carries the parts of the step, the queued
  additional steps, the lines printed by \<^verbatim>\<open>console.log\<close> so far, and the state;
  \<^term>\<open>None\<close> when an evaluator raised.
\<close>

fun evalSubSteps ::
  "Data \<Rightarrow> 'q Quest \<Rightarrow> RouteLookup \<Rightarrow> ParsedActionStep \<Rightarrow>
   'q Part list \<Rightarrow> 'q Step list \<Rightarrow> string list \<Rightarrow> RouteState \<Rightarrow>
   ('q Part list \<times> 'q Step list \<times> string list \<times> RouteState) option" where
  "evalSubSteps D Q L [] parts extra out s = Some (parts, extra, out, s)"
| "evalSubSteps D Q L (Txt subStep # rest) parts extra out s =
     evalSubSteps D Q L rest (parts @ [Text subStep]) extra out s"
| "evalSubSteps D Q L (Tok subStep # rest) parts extra out s =
     (case evaluateAction D Q subStep L s of
        Throws \<Rightarrow> None
      | Returns (Inl result) s' \<Rightarrow>
          evalSubSteps D Q L rest parts extra
            (out @ [result @ '': '' @ join '','' subStep]) s'
      | Returns (Inr result) s' \<Rightarrow>
          evalSubSteps D Q L rest
            (case action' result of Some a \<Rightarrow> parts @ [Act a] | None \<Rightarrow> parts)
            (case additionalSteps result of Some xs \<Rightarrow> extra @ xs | None \<Rightarrow> extra)
            out s')"

definition parseLine ::
  "Data \<Rightarrow> 'q Quest \<Rightarrow> RouteLookup \<Rightarrow> string \<Rightarrow>
   'q Route \<times> string list \<times> RouteState \<Rightarrow> ('q Route \<times> string list \<times> RouteState) option" where
  "parseLine D Q L line acc = (case acc of (route, out, s) \<Rightarrow>
     if line = [] then Some (route, out, s)
     else case evalSubSteps D Q L (parseStep line) [] [] out s of
            None \<Rightarrow> None
          | Some (parts, extra, out', s') \<Rightarrow>
              Some ((if parts \<noteq> [] then route @ [ActionStep parts] else route) @ extra,
                    out', s'))"

fun parseLines ::
  "Data \<Rightarrow> 'q Quest \<Rightarrow> RouteLookup \<Rightarrow> string list \<Rightarrow>
   'q Route \<times> string list \<times> RouteState \<Rightarrow> ('q Route \<times> string list \<times> RouteState) option" where
  "parseLines D Q L [] acc = Some acc"
| "parseLines D Q L (line # routeLines) acc =
     (case parseLine D Q L line acc of
        None \<Rightarrow> None
      | Some acc' \<Rightarrow> parseLines D Q L routeLines acc')"

fun parseSources ::
  "Data \<Rightarrow> 'q Quest \<Rightarrow> RouteLookup \<Rightarrow> string list \<Rightarrow>
   'q Route list \<times> string list \<times> RouteState \<Rightarrow>
   ('q Route list \<times> string list \<times> RouteState) option" where
  "parseSources D Q L [] acc = Some acc"
| "parseSources D Q L (routeSource # rest) (routes, out, s) =
     (case parseLines D Q L (split_lines routeSource) ([], out, s) of
        None \<Rightarrow> None
      | Some (route, out', s') \<Rightarrow> parseSources D Q L rest (routes @ [route], out', s'))"

definition unusedWaypointMessage :: "string \<Rightarrow> string" where
  "unusedWaypointMessage waypoint = ''unused waypoint '' @ waypoint"

definition missingCraftingAreaMessage :: "Area \<Rightarrow> string" where
  "missingCraftingAreaMessage area =
     ''missing crafting area '' @ id' area @ '', '' @ join '', '' (crafting_recipes area)"

definition unusedWaypoints :: "RouteState \<Rightarrow> string list" where
  "unusedWaypoints s =
     filter (\<lambda>waypoint. \<not> Set_has (usedWaypoints s) waypoint) (explicitWaypoints s)"

definition missingCraftingAreas :: "Data \<Rightarrow> RouteState \<Rightarrow> (string \<times> Area) list" where
  "missingCraftingAreas D s =
     filter (\<lambda>(key, area). crafting_recipes area \<noteq> []
                              \<and> \<not> Set_has (craftingAreas s) (Some (id' area)))
            (areas D)"

text \<open>
  \<^verbatim>\<open>parseRoute\<close> returns the routes; the model also returns what was printed and the
  state as the call leaves it. \<^term>\<open>None\<close> when an evaluator raised.
\<close>

definition parseRoute ::
  "Data \<Rightarrow> 'q Quest \<Rightarrow> string list \<Rightarrow> RouteLookup \<Rightarrow> RouteState \<Rightarrow>
   ('q Route list \<times> string list \<times> RouteState) option" where
  "parseRoute D Q routeSources L s =
     (case parseSources D Q L routeSources ([], [], s) of
        None \<Rightarrow> None
      | Some (routes, out, s') \<Rightarrow>
          Some (routes,
                out @ map unusedWaypointMessage (unusedWaypoints s')
                    @ map (\<lambda>(key, area). missingCraftingAreaMessage area)
                          (missingCraftingAreas D s'),
                s'))"

subsection \<open>Properties of the area table and of the state\<close>

definition area_exists :: "Data \<Rightarrow> string \<Rightarrow> bool" where
  "area_exists D k = (areas_at D k \<noteq> None)"

text \<open>The area table is keyed by area id: the entry at a key carries that key as its id.\<close>

definition keyed_by_id :: "Data \<Rightarrow> bool" where
  "keyed_by_id D = list_all (\<lambda>(key, area). id' area = key) (areas D)"

definition state_invariant :: "Data \<Rightarrow> RouteState \<Rightarrow> bool" where
  "state_invariant D s =
     ((case currentAreaId s of None \<Rightarrow> False | Some c \<Rightarrow> area_exists D c)
      \<and> area_exists D (lastTownAreaId s)
      \<and> (case portalAreaId s of None \<Rightarrow> True | Some p \<Rightarrow> area_exists D p))"

text \<open>The three fields the invariant reads are the same in both states.\<close>

definition same_position :: "RouteState \<Rightarrow> RouteState \<Rightarrow> bool" where
  "same_position s s' =
     (currentAreaId s' = currentAreaId s \<and> lastTownAreaId s' = lastTownAreaId s
      \<and> portalAreaId s' = portalAreaId s)"

text \<open>Every town of the lookup is a key of the area table.\<close>

definition towns_exist :: "Data \<Rightarrow> RouteLookup \<Rightarrow> bool" where
  "towns_exist D L = (\<forall>n t. towns L n = Some t \<longrightarrow> area_exists D t)"

text \<open>What is assumed of the two evaluators of \<^verbatim>\<open>./quest\<close>, where a property needs it.\<close>

definition preserves_invariant :: "Data \<Rightarrow> 'q Evaluator \<Rightarrow> bool" where
  "preserves_invariant D E =
     (\<forall>action L s r s'. state_invariant D s \<longrightarrow> E action L s = Returns r s'
        \<longrightarrow> state_invariant D s')"

definition error_atomic :: "'q Evaluator \<Rightarrow> bool" where
  "error_atomic E = (\<forall>action L s e s'. E action L s = Returns (Inl e) s' \<longrightarrow> s' = s)"

definition keeps_explicit_set :: "'q Evaluator \<Rightarrow> bool" where
  "keeps_explicit_set E =
     (\<forall>action L s r s'. distinct (explicitWaypoints s) \<longrightarrow> E action L s = Returns r s'
        \<longrightarrow> distinct (explicitWaypoints s'))"

text \<open>The states a run can be in: the initial one, and the state after any evaluator
  invocation that returned, made from such a state.\<close>

inductive reachable :: "Data \<Rightarrow> 'q Quest \<Rightarrow> RouteLookup \<Rightarrow> RouteState \<Rightarrow> bool"
  for D :: Data and Q :: "'q Quest" and L :: RouteLookup where
  initial: "reachable D Q L initializeRouteState"
| invocation: "reachable D Q L s \<Longrightarrow> evaluateAction D Q action L s = Returns r s'
               \<Longrightarrow> reachable D Q L s'"

text \<open>
  The acts that \<^verbatim>\<open>use_portal\<close> looks up have a town: whenever a reachable state stands at
  its portal area, the lookup has a town for the act of that area.
\<close>

definition portal_towns_known :: "Data \<Rightarrow> 'q Quest \<Rightarrow> RouteLookup \<Rightarrow> bool" where
  "portal_towns_known D Q L =
     (\<forall>s area. reachable D Q L s
        \<longrightarrow> areas_at D (prop_key (currentAreaId s)) = Some area
        \<longrightarrow> truthy (portalAreaId s) \<longrightarrow> Some (id' area) = portalAreaId s
        \<longrightarrow> towns L (act area) \<noteq> None)"

text \<open>Every action of the list, evaluated in turn, returns a diagnostic.\<close>

fun all_fail :: "Data \<Rightarrow> 'q Quest \<Rightarrow> RouteLookup \<Rightarrow> ParsedAction list \<Rightarrow> RouteState \<Rightarrow> bool" where
  "all_fail D Q L [] s = True"
| "all_fail D Q L (subStep # rest) s =
     (case evaluateAction D Q subStep L s of
        Returns (Inl result) s' \<Rightarrow> all_fail D Q L rest s'
      | _ \<Rightarrow> False)"

subsection \<open>A small area table\<close>

definition exampleStrand :: Area where
  "exampleStrand =
     \<lparr>id' = ''1_1_1'', act = 1, name = ''The Twilight Strand'',
      connection_ids = [''1_1_town''], is_town_area = False, has_waypoint = False,
      crafting_recipes = []\<rparr>"

definition exampleTown :: Area where
  "exampleTown =
     \<lparr>id' = ''1_1_town'', act = 1, name = ''Lioneye's Watch'',
      connection_ids = [''1_1_1'', ''1_1_2''], is_town_area = True, has_waypoint = True,
      crafting_recipes = []\<rparr>"

definition exampleCoast :: Area where
  "exampleCoast =
     \<lparr>id' = ''1_1_2'', act = 1, name = ''The Coast'',
      connection_ids = [''1_1_town''], is_town_area = False, has_waypoint = True,
      crafting_recipes = [''Fire Resistance'', ''Life'']\<rparr>"

definition examplePlaza :: Area where
  "examplePlaza =
     \<lparr>id' = ''Labyrinth_Airlock'', act = 1, name = ''Aspirants' Plaza'',
      connection_ids = [], is_town_area = False, has_waypoint = False,
      crafting_recipes = []\<rparr>"

definition exampleData :: Data where
  "exampleData =
     \<lparr>areas = [(''1_1_1'', exampleStrand), (''1_1_town'', exampleTown),
               (''1_1_2'', exampleCoast), (''Labyrinth_Airlock'', examplePlaza)],
      killWaypoints = map_of [(''Hillock'', [''1_1_2''])]\<rparr>"

text \<open>Stand-ins for the evaluators of \<^verbatim>\<open>./quest\<close>, to run the examples.\<close>

definition exampleQuest :: "unit Quest" where
  "exampleQuest =
     \<lparr>EvaluateQuest = (\<lambda>action L s.
        if length action \<noteq> 2 then failure ERROR_INVALID_FORMAT s
        else Returns (Inr \<lparr>action' = Some (QuestAction ()),
                           additionalSteps = Some [RewardStep ()]\<rparr>) s),
      EvaluateQuestText = (\<lambda>action L s.
        if length action \<noteq> 2 then failure ERROR_INVALID_FORMAT s
        else success (QuestTextAction ()) s)\<rparr>"

definition exampleLookup :: RouteLookup where
  "exampleLookup = initializeRouteLookup exampleData None"

definition atCoast :: RouteState where
  "atCoast = initializeRouteState\<lparr>currentAreaId := Some ''1_1_2''\<rparr>"

definition afterCoast :: RouteState where
  "afterCoast =
     \<lparr>implicitWaypoints = [''1_1_town''], explicitWaypoints = [''1_1_2''], usedWaypoints = [],
      craftingAreas = [], currentAreaId = Some ''1_1_2'', lastTownAreaId = ''1_1_town'',
      portalAreaId = None, acquiredGems = []\<rparr>"

section \<open>Properties\<close>

subsection \<open>Auxiliary facts\<close>

lemmas evaluator_defs =
  EvaluateKill_def EvaluateArena_def EvaluateArea_def EvaluateEnter_def EvaluateTown_def
  EvaluateWaypoint_def EvaluateGetWaypoint_def EvaluateSetPortal_def EvaluateUsePortal_def
  EvaluateGeneric_def EvaluateTrial_def EvaluateAscend_def EvaluateCrafting_def
  craftingAt_def EvaluateDirection_def

lemmas example_defs =
  exampleData_def exampleStrand_def exampleTown_def exampleCoast_def examplePlaza_def
  exampleQuest_def atCoast_def initializeRouteState_def areas_at_def area_exists_def
  areas_index_def get_property_def Object_prototype_keys_def

lemmas lexer_defs =
  match_comment_def match_text_def match_action_def is_space_def is_line_terminator_def

lemma exampleLookup_towns: "towns exampleLookup = [1 \<mapsto> ''1_1_town'']"
  by (simp add: exampleLookup_def initializeRouteLookup_def example_defs)

lemma exampleQuest_facts:
  "error_atomic (EvaluateQuest exampleQuest)" "error_atomic (EvaluateQuestText exampleQuest)"
  "preserves_invariant D (EvaluateQuest exampleQuest)"
  "preserves_invariant D (EvaluateQuestText exampleQuest)"
  "keeps_explicit_set (EvaluateQuest exampleQuest)"
  "keeps_explicit_set (EvaluateQuestText exampleQuest)"
  by (auto simp: error_atomic_def preserves_invariant_def
      keeps_explicit_set_def exampleQuest_def success_def failure_def split: if_splits)

lemma evaluateAction_dispatch:
  "evaluateAction D Q action L s \<in>
     {EvaluateKill D action L s, EvaluateArena action L s, EvaluateArea D action L s,
      EvaluateEnter D action L s, EvaluateTown D action L s, EvaluateWaypoint D action L s,
      EvaluateGetWaypoint D action L s, EvaluateSetPortal action L s,
      EvaluateUsePortal D action L s, EvaluateQuest Q action L s,
      EvaluateQuestText Q action L s, EvaluateGeneric action L s, EvaluateTrial action L s,
      EvaluateCrafting D action L s, EvaluateAscend D action L s,
      EvaluateDirection action L s, failure ERROR_INVALID_FORMAT s}"
  unfolding evaluateAction_def by (simp split: list.split)

lemma areas_at_keyed: "keyed_by_id D \<Longrightarrow> areas_at D k = Some a \<Longrightarrow> id' a = k"
  by (auto simp: keyed_by_id_def areas_at_def list_all_iff dest!: map_of_SomeD)

lemma areas_index_iff [simp]:
  "areas_index D k = Own a \<longleftrightarrow> areas_at D k = Some a"
  "areas_index D k = Undefined \<longleftrightarrow> areas_at D k = None \<and> k \<notin> set Object_prototype_keys"
  "areas_index D k = Inherited \<longleftrightarrow> areas_at D k = None \<and> k \<in> set Object_prototype_keys"
  by (simp_all add: areas_index_def get_property_def split: option.split)

lemma keyed_lookup_exists:
  assumes "keyed_by_id D" and "areas_at D key = Some area"
  shows "area_exists D (id' area)"
  using areas_at_keyed[OF assms] assms(2) by (simp add: area_exists_def)

subsection \<open>Entering an area\<close>

text \<open>
  C1. An \<^verbatim>\<open>enter\<close> action whose argument names an area of the table that lists the
  current area among its connections succeeds: the returned action is \<open>Enter\<close> with the
  target's id, the current area becomes the target's id, and for a town the last town
  becomes the target's id and, when the town has a waypoint, the target's id is in the
  implicit waypoints afterwards.
\<close>

theorem enter_connected_area:
  assumes "areas_at D target = Some area"
      and "\<exists>x \<in> set (connection_ids area). currentAreaId s = Some x"
  shows "\<exists>s'. evaluateAction D Q [''enter'', target] L s
               = Returns (Inr \<lparr>action' = Some (EnterAction (id' area)),
                                additionalSteps = None\<rparr>) s'
             \<and> currentAreaId s' = Some (id' area)
             \<and> (is_town_area area \<longrightarrow>
                  lastTownAreaId s' = id' area
                  \<and> (has_waypoint area \<longrightarrow> id' area \<in> set (implicitWaypoints s')))"
  using assms
  by (auto simp: evaluateAction_def EvaluateEnter_def success_def failure_def list_ex_iff
      Set_add_def Let_def split: property.split)

theorem enter_connected_area_witness:
  "\<exists>s'. evaluateAction exampleData exampleQuest [''enter'', ''1_1_town''] exampleLookup
           initializeRouteState
         = Returns (Inr \<lparr>action' = Some (EnterAction ''1_1_town''),
                          additionalSteps = None\<rparr>) s'
       \<and> currentAreaId s' = Some ''1_1_town''
       \<and> lastTownAreaId s' = ''1_1_town''
       \<and> ''1_1_town'' \<in> set (implicitWaypoints s')"
proof -
  have found: "areas_at exampleData ''1_1_town'' = Some exampleTown"
    by (simp add: areas_at_def exampleData_def)
  have connected:
    "\<exists>x \<in> set (connection_ids exampleTown). currentAreaId initializeRouteState = Some x"
    by (simp add: exampleTown_def initializeRouteState_def)
  from enter_connected_area[OF found connected, of exampleQuest exampleLookup]
  show ?thesis by (simp add: exampleTown_def)
qed

subsection \<open>Waypoints\<close>

text \<open>
  C5. A \<^verbatim>\<open>waypoint\<close> action whose argument names an area of the table whose id is in
  neither the implicit nor the explicit waypoints returns the diagnostic
  "missing target waypoint" and leaves every field of the state as it was.
\<close>

theorem waypoint_missing_target:
  assumes "areas_at D target = Some area"
      and "id' area \<notin> set (implicitWaypoints s)"
      and "id' area \<notin> set (explicitWaypoints s)"
  shows "evaluateAction D Q [''waypoint'', target] L s
           = Returns (Inl ''missing target waypoint'') s"
  using assms
  by (simp add: evaluateAction_def EvaluateWaypoint_def failure_def Set_has_def
      split: property.split)

theorem waypoint_missing_target_witness:
  "evaluateAction exampleData exampleQuest [''waypoint'', ''1_1_2''] exampleLookup
     initializeRouteState
   = Returns (Inl ''missing target waypoint'') initializeRouteState"
proof -
  have found: "areas_at exampleData ''1_1_2'' = Some exampleCoast"
    by (simp add: areas_at_def exampleData_def)
  have unknown: "id' exampleCoast \<notin> set (implicitWaypoints initializeRouteState)"
    "id' exampleCoast \<notin> set (explicitWaypoints initializeRouteState)"
    by (simp_all add: initializeRouteState_def)
  from waypoint_missing_target[OF found unknown] show ?thesis .
qed

text \<open>
  C8. Where the current area is in the table, has a waypoint and is not an implicit
  waypoint, \<^verbatim>\<open>get_waypoint\<close> succeeds twice in a row, each call adding the current
  area's id to the explicit waypoints.
\<close>

theorem get_waypoint_twice:
  assumes "areas_at D (prop_key (currentAreaId s)) = Some area"
      and "has_waypoint area"
      and "id' area \<notin> set (implicitWaypoints s)"
  shows "\<exists>s1 s2.
           evaluateAction D Q [''get_waypoint''] L s
             = Returns (Inr \<lparr>action' = Some GetWaypointAction, additionalSteps = None\<rparr>) s1
         \<and> explicitWaypoints s1 = Set_add (id' area) (explicitWaypoints s)
         \<and> evaluateAction D Q [''get_waypoint''] L s1
             = Returns (Inr \<lparr>action' = Some GetWaypointAction, additionalSteps = None\<rparr>) s2
         \<and> explicitWaypoints s2 = Set_add (id' area) (explicitWaypoints s1)"
  using assms
  by (simp add: evaluateAction_def EvaluateGetWaypoint_def success_def failure_def Set_has_def
      split: property.split)

theorem get_waypoint_twice_witness:
  "\<exists>s1 s2.
     evaluateAction exampleData exampleQuest [''get_waypoint''] exampleLookup atCoast
       = Returns (Inr \<lparr>action' = Some GetWaypointAction, additionalSteps = None\<rparr>) s1
   \<and> explicitWaypoints s1 = [''1_1_2'']
   \<and> evaluateAction exampleData exampleQuest [''get_waypoint''] exampleLookup s1
       = Returns (Inr \<lparr>action' = Some GetWaypointAction, additionalSteps = None\<rparr>) s2
   \<and> explicitWaypoints s2 = [''1_1_2'']"
proof -
  have here: "areas_at exampleData (prop_key (currentAreaId atCoast)) = Some exampleCoast"
    by (simp add: prop_key_def example_defs)
  have wp: "has_waypoint exampleCoast"
    by (simp add: exampleCoast_def)
  have fresh: "id' exampleCoast \<notin> set (implicitWaypoints atCoast)"
    by (simp add: example_defs)
  from get_waypoint_twice[OF here wp fresh, of exampleQuest exampleLookup]
  obtain s1 s2 where
    "evaluateAction exampleData exampleQuest [''get_waypoint''] exampleLookup atCoast
       = Returns (Inr \<lparr>action' = Some GetWaypointAction, additionalSteps = None\<rparr>) s1"
    "explicitWaypoints s1 = Set_add (id' exampleCoast) (explicitWaypoints atCoast)"
    "evaluateAction exampleData exampleQuest [''get_waypoint''] exampleLookup s1
       = Returns (Inr \<lparr>action' = Some GetWaypointAction, additionalSteps = None\<rparr>) s2"
    "explicitWaypoints s2 = Set_add (id' exampleCoast) (explicitWaypoints s1)"
    by blast
  moreover from this(2) have "explicitWaypoints s1 = [''1_1_2'']"
    by (simp add: Set_add_def example_defs)
  moreover from this calculation(4) have "explicitWaypoints s2 = [''1_1_2'']"
    by (simp add: Set_add_def example_defs)
  ultimately show ?thesis by blast
qed

subsection \<open>Diagnostics leave the state alone\<close>

text \<open>
  C10. Whenever the dispatcher returns a diagnostic string, the state it leaves is the
  state it was given, field by field. The two evaluators of \<^verbatim>\<open>./quest\<close> are assumed
  to behave so; the fourteen evaluators of this module are shown to.
\<close>

theorem evaluateAction_error_atomic:
  assumes "error_atomic (EvaluateQuest Q)" and "error_atomic (EvaluateQuestText Q)"
      and "evaluateAction D Q action L s = Returns (Inl e) s'"
  shows "s' = s"
proof (cases action)
  case Nil
  with assms(3) show ?thesis by (simp add: evaluateAction_def failure_def)
next
  case (Cons verb args)
  from assms(1,2) have q: "EvaluateQuest Q action L s = Returns (Inl e) s' \<Longrightarrow> s' = s"
    "EvaluateQuestText Q action L s = Returns (Inl e) s' \<Longrightarrow> s' = s"
    unfolding error_atomic_def by blast+
  from assms(3) q show ?thesis
    unfolding evaluateAction_def Cons list.case
    by (auto simp: evaluator_defs success_def failure_def Let_def
        split: if_splits option.splits property.splits)
qed

theorem evaluateAction_error_atomic_witness:
  "\<exists>e s'. evaluateAction exampleData exampleQuest [''enter'', ''1_1_2''] exampleLookup
             initializeRouteState = Returns (Inl e) s'
          \<and> s' = initializeRouteState"
proof -
  obtain e s' where run:
    "evaluateAction exampleData exampleQuest [''enter'', ''1_1_2''] exampleLookup
       initializeRouteState = Returns (Inl e) s'"
    by (simp add: evaluateAction_def EvaluateEnter_def failure_def example_defs)
  from evaluateAction_error_atomic[OF exampleQuest_facts(1,2) run] run
  show ?thesis by blast
qed

subsection \<open>Faults\<close>

text \<open>
  C4. The claim has every evaluator return, a result or a diagnostic, for every action,
  lookup and state. The code raises a \<^verbatim>\<open>TypeError\<close> from the initial state for an action
  whose argument is a key that the tables inherit: \<^verbatim>\<open>areas["constructor"]\<close> is a function,
  which passes the test \<^verbatim>\<open>!area\<close> of \<^verbatim>\<open>enter\<close> and has no \<^verbatim>\<open>connection_ids\<close>;
  \<^verbatim>\<open>killWaypoints["constructor"]\<close> passes the test of \<^verbatim>\<open>kill\<close> and is not iterable. The
  fault leaves \<^verbatim>\<open>parseRoute\<close> without a result. The read of the area table at the
  current area id is guarded in \<^verbatim>\<open>get_waypoint\<close> only: \<^verbatim>\<open>use_portal\<close> raises at a
  current area id that is no key of the table.
\<close>

theorem evaluateAction_throws:
  "evaluateAction exampleData exampleQuest [''enter'', ''constructor''] exampleLookup
     initializeRouteState = Throws
   \<and> evaluateAction exampleData exampleQuest [''kill'', ''constructor''] exampleLookup
       initializeRouteState = Throws
   \<and> parseRoute exampleData exampleQuest [''{enter|constructor}''] exampleLookup
       initializeRouteState = None
   \<and> evaluateAction exampleData exampleQuest [''use_portal''] exampleLookup
       (initializeRouteState\<lparr>currentAreaId := Some ''nowhere'',
                              portalAreaId := Some ''1_1_1''\<rparr>) = Throws"
proof (intro conjI)
  show enter: "evaluateAction exampleData exampleQuest [''enter'', ''constructor'']
      exampleLookup initializeRouteState = Throws"
    by (simp add: evaluateAction_def EvaluateEnter_def example_defs)
  show "evaluateAction exampleData exampleQuest [''kill'', ''constructor''] exampleLookup
       initializeRouteState = Throws"
    by (simp add: evaluateAction_def EvaluateKill_def example_defs)
  have "parseStep ''{enter|constructor}'' = [Tok [''enter'', ''constructor'']]"
    by (simp add: parseStep.simps lexer_defs)
  with enter show "parseRoute exampleData exampleQuest [''{enter|constructor}''] exampleLookup
       initializeRouteState = None"
    by (simp add: parseRoute_def parseLine_def)
  show "evaluateAction exampleData exampleQuest [''use_portal''] exampleLookup
       (initializeRouteState\<lparr>currentAreaId := Some ''nowhere'',
                              portalAreaId := Some ''1_1_1''\<rparr>) = Throws"
    by (simp add: evaluateAction_def EvaluateUsePortal_def truthy_def prop_key_def
        example_defs)
qed

subsection \<open>The state invariant\<close>

lemma initializeRouteLookup_towns:
  assumes "towns (initializeRouteLookup D bd) n = Some t"
  shows "\<exists>k a. (k, a) \<in> set (areas D) \<and> id' a = t"
proof -
  have "towns (fold (\<lambda>(k, area) routeLookup.
             if is_town_area area
             then routeLookup\<lparr>towns := (towns routeLookup)(act area \<mapsto> id' area)\<rparr>
             else routeLookup) xs L0) n = Some t
        \<Longrightarrow> towns L0 n = Some t \<or> (\<exists>k a. (k, a) \<in> set xs \<and> id' a = t)" for xs L0
    by (induction xs arbitrary: L0) (fastforce split: if_splits)+
  from this[of "areas D" "\<lparr>towns = Map.empty, buildData = bd\<rparr>"] assms
  show ?thesis by (simp add: initializeRouteLookup_def)
qed

lemma keyed_area_exists:
  assumes "keyed_by_id D" and "(k, a) \<in> set (areas D)"
  shows "area_exists D (id' a)"
proof -
  from assms have "id' a = k" by (auto simp: keyed_by_id_def list_all_iff)
  moreover from assms(2) have "map_of (areas D) k \<noteq> None"
    by (metis map_of_eq_None_iff image_eqI fst_conv)
  ultimately show ?thesis by (simp add: area_exists_def areas_at_def)
qed

lemma EvaluateEnter_invariant:
  assumes "keyed_by_id D" and "state_invariant D s"
      and "EvaluateEnter D action L s = Returns r s'"
  shows "state_invariant D s'"
  using assms(2,3) keyed_lookup_exists[OF assms(1)]
  by (auto simp: EvaluateEnter_def success_def failure_def Let_def state_invariant_def
      split: if_splits option.splits property.splits)

lemma EvaluateTown_invariant:
  assumes "state_invariant D s" and "EvaluateTown D action L s = Returns r s'"
  shows "state_invariant D s'"
  using assms
  by (auto simp: EvaluateTown_def success_def failure_def Let_def state_invariant_def
      split: if_splits)

lemma EvaluateWaypoint_invariant:
  assumes "keyed_by_id D" and "state_invariant D s"
      and "EvaluateWaypoint D action L s = Returns r s'"
  shows "state_invariant D s'"
  using assms(2,3) keyed_lookup_exists[OF assms(1)]
  by (auto simp: EvaluateWaypoint_def success_def failure_def state_invariant_def
      split: if_splits option.splits property.splits)

lemma EvaluateSetPortal_invariant:
  assumes "state_invariant D s" and "EvaluateSetPortal action L s = Returns r s'"
  shows "state_invariant D s'"
  using assms
  by (auto simp: EvaluateSetPortal_def success_def failure_def state_invariant_def
      split: if_splits option.splits property.splits)

lemma EvaluateUsePortal_invariant:
  assumes "towns_exist D L"
      and "\<And>area. areas_at D (prop_key (currentAreaId s)) = Some area
             \<Longrightarrow> truthy (portalAreaId s) \<Longrightarrow> Some (id' area) = portalAreaId s
             \<Longrightarrow> towns L (act area) \<noteq> None"
      and "state_invariant D s"
      and "EvaluateUsePortal D action L s = Returns r s'"
  shows "state_invariant D s'"
proof (cases "areas_at D (prop_key (currentAreaId s))")
  case None
  with assms(3,4) show ?thesis
    by (auto simp: EvaluateUsePortal_def failure_def split: if_splits property.splits)
next
  case (Some currentArea)
  show ?thesis
  proof (cases "truthy (portalAreaId s) \<and> Some (id' currentArea) = portalAreaId s")
    case True
    with assms(2)[OF Some] obtain t where "towns L (act currentArea) = Some t"
      by blast
    moreover with assms(1) have "area_exists D t"
      by (auto simp: towns_exist_def)
    ultimately show ?thesis
      using assms(3,4) Some True
      by (auto simp: EvaluateUsePortal_def success_def failure_def state_invariant_def
          split: if_splits option.splits property.splits)
  next
    case False
    with assms(3,4) Some show ?thesis
      by (auto simp: EvaluateUsePortal_def success_def failure_def state_invariant_def
          truthy_def split: if_splits option.splits property.splits)
  qed
qed

lemma EvaluateAscend_invariant:
  assumes "state_invariant D s" and "EvaluateAscend D action L s = Returns r s'"
  shows "state_invariant D s'"
  using assms
  by (auto simp: EvaluateAscend_def success_def failure_def Let_def state_invariant_def
      split: if_splits option.splits property.splits)

lemma EvaluateKill_frame: "EvaluateKill D action L s = Returns r s' \<Longrightarrow> same_position s s'"
  by (auto simp: EvaluateKill_def same_position_def success_def failure_def Let_def
      split: if_splits option.splits property.splits)

lemma EvaluateArena_frame: "EvaluateArena action L s = Returns r s' \<Longrightarrow> same_position s s'"
  by (auto simp: EvaluateArena_def same_position_def success_def failure_def split: if_splits)

lemma EvaluateArea_frame: "EvaluateArea D action L s = Returns r s' \<Longrightarrow> same_position s s'"
  by (auto simp: EvaluateArea_def same_position_def success_def failure_def
      split: if_splits option.splits property.splits)

lemma EvaluateGetWaypoint_frame:
  "EvaluateGetWaypoint D action L s = Returns r s' \<Longrightarrow> same_position s s'"
  by (auto simp: EvaluateGetWaypoint_def same_position_def success_def failure_def
      split: if_splits option.splits property.splits)

lemma EvaluateGeneric_frame: "EvaluateGeneric action L s = Returns r s' \<Longrightarrow> same_position s s'"
  by (auto simp: EvaluateGeneric_def same_position_def success_def failure_def split: if_splits)

lemma EvaluateTrial_frame: "EvaluateTrial action L s = Returns r s' \<Longrightarrow> same_position s s'"
  by (auto simp: EvaluateTrial_def same_position_def success_def failure_def split: if_splits)

lemma EvaluateCrafting_frame:
  "EvaluateCrafting D action L s = Returns r s' \<Longrightarrow> same_position s s'"
  by (auto simp: EvaluateCrafting_def craftingAt_def same_position_def success_def failure_def
      split: if_splits option.splits property.splits)

lemma EvaluateDirection_frame:
  "EvaluateDirection action L s = Returns r s' \<Longrightarrow> s' = s"
  unfolding EvaluateDirection_def Let_def success_def failure_def
  by (simp split: if_splits)


lemma evaluateAction_invariant:
  assumes k: "keyed_by_id D"
      and t: "towns_exist D L"
      and a: "\<And>area. areas_at D (prop_key (currentAreaId s)) = Some area
                \<Longrightarrow> truthy (portalAreaId s) \<Longrightarrow> Some (id' area) = portalAreaId s
                \<Longrightarrow> towns L (act area) \<noteq> None"
      and q: "preserves_invariant D (EvaluateQuest Q)" "preserves_invariant D (EvaluateQuestText Q)"
      and i: "state_invariant D s"
      and e: "evaluateAction D Q action L s = Returns r s'"
  shows "state_invariant D s'"
proof (cases action)
  case Nil
  with e i show ?thesis by (simp add: evaluateAction_def failure_def)
next
  case (Cons verb args)
  have frame: "same_position s s' \<Longrightarrow> state_invariant D s'"
    using i by (simp add: same_position_def state_invariant_def)
  from q i have q': "EvaluateQuest Q action L s = Returns r s' \<Longrightarrow> state_invariant D s'"
    "EvaluateQuestText Q action L s = Returns r s' \<Longrightarrow> state_invariant D s'"
    unfolding preserves_invariant_def by blast+
  consider
      (kill) "EvaluateKill D action L s = Returns r s'"
    | (arena) "EvaluateArena action L s = Returns r s'"
    | (area) "EvaluateArea D action L s = Returns r s'"
    | (enter) "EvaluateEnter D action L s = Returns r s'"
    | (town) "EvaluateTown D action L s = Returns r s'"
    | (waypoint) "EvaluateWaypoint D action L s = Returns r s'"
    | (get_waypoint) "EvaluateGetWaypoint D action L s = Returns r s'"
    | (set_portal) "EvaluateSetPortal action L s = Returns r s'"
    | (use_portal) "EvaluateUsePortal D action L s = Returns r s'"
    | (quest) "EvaluateQuest Q action L s = Returns r s'"
    | (quest_text) "EvaluateQuestText Q action L s = Returns r s'"
    | (generic) "EvaluateGeneric action L s = Returns r s'"
    | (trial) "EvaluateTrial action L s = Returns r s'"
    | (crafting) "EvaluateCrafting D action L s = Returns r s'"
    | (ascend) "EvaluateAscend D action L s = Returns r s'"
    | (dir) "EvaluateDirection action L s = Returns r s'"
    | (unknown) "s' = s"
    using e evaluateAction_dispatch[of D Q action L s]
    unfolding insert_iff empty_iff failure_def by (elim disjE) simp_all
  then show ?thesis
  proof cases
    case kill then show ?thesis by (rule frame[OF EvaluateKill_frame])
  next
    case arena then show ?thesis by (rule frame[OF EvaluateArena_frame])
  next
    case area then show ?thesis by (rule frame[OF EvaluateArea_frame])
  next
    case enter then show ?thesis by (rule EvaluateEnter_invariant[OF k i])
  next
    case town then show ?thesis by (rule EvaluateTown_invariant[OF i])
  next
    case waypoint then show ?thesis by (rule EvaluateWaypoint_invariant[OF k i])
  next
    case get_waypoint then show ?thesis by (rule frame[OF EvaluateGetWaypoint_frame])
  next
    case set_portal then show ?thesis by (rule EvaluateSetPortal_invariant[OF i])
  next
    case use_portal
    show ?thesis
      by (rule EvaluateUsePortal_invariant[OF t _ i use_portal]) (rule a)
  next
    case quest then show ?thesis by (rule q')
  next
    case quest_text then show ?thesis by (rule q')
  next
    case generic then show ?thesis by (rule frame[OF EvaluateGeneric_frame])
  next
    case trial then show ?thesis by (rule frame[OF EvaluateTrial_frame])
  next
    case crafting then show ?thesis by (rule frame[OF EvaluateCrafting_frame])
  next
    case ascend then show ?thesis by (rule EvaluateAscend_invariant[OF i])
  next
    case dir
    from EvaluateDirection_frame[OF dir] i show ?thesis by simp
  next
    case unknown with i show ?thesis by simp
  qed
qed



text \<open>
  C3. With an area table keyed by area id that has the two seeded areas, and a lookup
  built by \<^verbatim>\<open>initializeRouteLookup\<close> that has a town for every act that \<^verbatim>\<open>use_portal\<close>
  looks up, every state reached from the initial state by evaluator invocations has a
  current area and a last town that are keys of the area table, and a portal area that is
  one when set. The two evaluators of \<^verbatim>\<open>./quest\<close> are assumed to preserve this.
\<close>

theorem reachable_state_invariant:
  assumes "keyed_by_id D"
      and "area_exists D ''1_1_1''" and "area_exists D ''1_1_town''"
      and "portal_towns_known D Q (initializeRouteLookup D bd)"
      and "preserves_invariant D (EvaluateQuest Q)"
      and "preserves_invariant D (EvaluateQuestText Q)"
      and "reachable D Q (initializeRouteLookup D bd) s"
  shows "state_invariant D s"
  using assms(7)
proof (induction rule: reachable.induct)
  case initial
  from assms(2,3) show ?case
    by (simp add: state_invariant_def initializeRouteState_def)
next
  case (invocation s action r s')
  have exist: "towns_exist D (initializeRouteLookup D bd)"
    unfolding towns_exist_def
    using initializeRouteLookup_towns keyed_area_exists[OF assms(1)] by blast
  have known: "towns (initializeRouteLookup D bd) (act area) \<noteq> None"
    if "areas_at D (prop_key (currentAreaId s)) = Some area"
      and "truthy (portalAreaId s)" and "Some (id' area) = portalAreaId s" for area
    using assms(4) invocation.hyps(1) that unfolding portal_towns_known_def by blast
  from evaluateAction_invariant[OF assms(1) exist known assms(5,6) invocation.IH
      invocation.hyps(2)]
  show ?case .
qed

theorem reachable_state_invariant_witness:
  "reachable exampleData exampleQuest exampleLookup
     (initializeRouteState\<lparr>lastTownAreaId := ''1_1_town'',
        implicitWaypoints := [''1_1_town''], currentAreaId := Some ''1_1_town''\<rparr>)
   \<and> state_invariant exampleData
     (initializeRouteState\<lparr>lastTownAreaId := ''1_1_town'',
        implicitWaypoints := [''1_1_town''], currentAreaId := Some ''1_1_town''\<rparr>)"
proof -
  have keyed: "keyed_by_id exampleData"
    by (simp add: keyed_by_id_def example_defs)
  have seeds: "area_exists exampleData ''1_1_1''" "area_exists exampleData ''1_1_town''"
    by (simp_all add: example_defs)
  have "towns exampleLookup (act area) \<noteq> None" if "areas_at exampleData key = Some area"
    for key area
    using that by (auto simp: exampleLookup_towns example_defs split: if_splits)
  then have acts: "portal_towns_known exampleData exampleQuest
                     (initializeRouteLookup exampleData None)"
    unfolding portal_towns_known_def exampleLookup_def by blast
  have step: "evaluateAction exampleData exampleQuest [''enter'', ''1_1_town''] exampleLookup
      initializeRouteState
    = Returns (Inr \<lparr>action' = Some (EnterAction ''1_1_town''), additionalSteps = None\<rparr>)
        (initializeRouteState\<lparr>lastTownAreaId := ''1_1_town'',
           implicitWaypoints := [''1_1_town''], currentAreaId := Some ''1_1_town''\<rparr>)"
    by (simp add: evaluateAction_def EvaluateEnter_def success_def Set_add_def example_defs)
  have there: "reachable exampleData exampleQuest exampleLookup
     (initializeRouteState\<lparr>lastTownAreaId := ''1_1_town'',
        implicitWaypoints := [''1_1_town''], currentAreaId := Some ''1_1_town''\<rparr>)"
    by (rule reachable.invocation[OF reachable.initial step])
  from reachable_state_invariant[OF keyed seeds acts exampleQuest_facts(3,4)
      there[unfolded exampleLookup_def]] there
  show ?thesis by simp
qed

subsection \<open>The portal\<close>



subsection \<open>Steps of a line\<close>

lemma hash_not_space: "\<not> is_space (CHR ''#'')"
  by (simp add: is_space_def)

lemma space_is_text: "is_space c \<Longrightarrow> c \<noteq> CHR ''{'' \<and> c \<noteq> CHR ''#''"
  by (auto simp: is_space_def)

lemma parseStep_Nil: "parseStep [] = []"
  by (simp add: parseStep.simps)

lemma parseStep_comment:
  assumes "list_all is_space ws" and "\<not> list_ex is_line_terminator rest"
  shows "parseStep (ws @ CHR ''#'' # rest) = []"
proof -
  from assms(1) have d1: "dropWhile is_space (ws @ CHR ''#'' # rest) = CHR ''#'' # rest"
    by (simp add: dropWhile_append3 hash_not_space list_all_iff)
  from assms(2) have d2: "dropWhile (\<lambda>d. \<not> is_line_terminator d) rest = []"
    by (simp add: list_ex_iff)
  have "match_comment (ws @ CHR ''#'' # rest) = Some []"
    by (simp add: match_comment_def d1 d2 del: dropWhile_eq_Nil_conv)
  then show ?thesis
    by (subst parseStep.simps) (simp add: parseStep_Nil)
qed

lemma parseStep_spaces:
  assumes "line \<noteq> []" and "list_all is_space line"
  shows "parseStep line = [Txt line]"
proof -
  let ?text = "\<lambda>c. c \<noteq> CHR ''{'' \<and> c \<noteq> CHR ''#''"
  from assms(2) have d: "dropWhile is_space line = []"
    by (simp add: list_all_iff)
  have c: "match_comment line = None"
    by (simp add: match_comment_def d del: dropWhile_eq_Nil_conv)
  from assms(2) have "\<forall>c \<in> set line. ?text c"
    using space_is_text by (auto simp: list_all_iff)
  then have tk: "takeWhile ?text line = line" and dr: "dropWhile ?text line = []"
    by (simp_all add: takeWhile_eq_all_conv)
  from assms(1) have t: "match_text line = Some (line, [])"
    by (simp add: match_text_def tk dr del: dropWhile_eq_Nil_conv takeWhile_eq_all_conv)
  from assms(1) c t show ?thesis
    by (subst parseStep.simps) (simp add: parseStep_Nil)
qed

lemma evalSubSteps_all_fail:
  "all_fail D Q L acts s \<Longrightarrow>
   \<exists>out' s'. evalSubSteps D Q L (map Tok acts) parts extra out s = Some (parts, extra, out', s')"
proof (induction acts arbitrary: out s)
  case Nil
  then show ?case by simp
next
  case (Cons a acts)
  from Cons.prems obtain e s1 where
    ev: "evaluateAction D Q a L s = Returns (Inl e) s1" and rest: "all_fail D Q L acts s1"
    by (auto split: ret.splits sum.splits)
  from Cons.IH[OF rest] ev show ?case by simp
qed

text \<open>The lines of a document hold no line terminator.\<close>

lemma split_lines_no_terminator:
  "l \<in> set (split_lines src) \<Longrightarrow> \<not> list_ex is_line_terminator l"
proof (induction src arbitrary: l rule: split_lines.induct)
  case 1
  then show ?case by simp
next
  case (2 c cs)
  show ?case
  proof (cases "c = CHR 0x0D")
    case True
    with 2 show ?thesis by (auto split: if_splits)
  next
    case cr: False
    show ?thesis
    proof (cases "c = CHR 0x0A")
      case True
      with cr 2 show ?thesis by auto
    next
      case False
      with cr have c: "\<not> is_line_terminator c" by (simp add: is_line_terminator_def)
      from cr False 2 show ?thesis
        by (cases "split_lines cs") (auto simp: c)
    qed
  qed
qed

text \<open>
  C7, as the code has it. An empty line, a line that is only a comment (white space, then
  \<^verbatim>\<open>#\<close> to the end of the line), and a line that is only action tokens which all
  return a diagnostic add no step to the route. A line of white space alone is a text
  part: it adds one step holding that text. In general the line adds the step of its
  parts when there is at least one part, and then the queued additional steps.
\<close>

theorem parseLine_steps:
  "parseLine D Q L [] (route, out, s) = Some (route, out, s)
   \<and> (list_all is_space ws \<and> \<not> list_ex is_line_terminator rest \<longrightarrow>
        parseLine D Q L (ws @ CHR ''#'' # rest) (route, out, s) = Some (route, out, s))
   \<and> (parseStep line = map Tok acts \<and> all_fail D Q L acts s \<longrightarrow>
        (\<exists>out' s'. parseLine D Q L line (route, out, s) = Some (route, out', s')))
   \<and> (line \<noteq> [] \<and> list_all is_space line \<longrightarrow>
        parseLine D Q L line (route, out, s) = Some (route @ [ActionStep [Text line]], out, s))
   \<and> (line \<noteq> [] \<and> evalSubSteps D Q L (parseStep line) [] [] out s
                        = Some (parts, extra, out', s') \<longrightarrow>
        parseLine D Q L line (route, out, s)
          = Some (route @ (if parts = [] then [] else [ActionStep parts]) @ extra, out', s'))"
proof (intro conjI impI)
  show "parseLine D Q L [] (route, out, s) = Some (route, out, s)"
    by (simp add: parseLine_def)
next
  assume "list_all is_space ws \<and> \<not> list_ex is_line_terminator rest"
  then have "parseStep (ws @ CHR ''#'' # rest) = []"
    by (simp add: parseStep_comment)
  then show "parseLine D Q L (ws @ CHR ''#'' # rest) (route, out, s) = Some (route, out, s)"
    by (simp add: parseLine_def)
next
  assume a: "parseStep line = map Tok acts \<and> all_fail D Q L acts s"
  then obtain out' s' where
    "evalSubSteps D Q L (parseStep line) [] [] out s = Some ([], [], out', s')"
    using evalSubSteps_all_fail[of D Q L acts s "[]" "[]" out] by auto
  then show "\<exists>out' s'. parseLine D Q L line (route, out, s) = Some (route, out', s')"
    by (cases "line = []") (simp_all add: parseLine_def)
next
  assume "line \<noteq> [] \<and> list_all is_space line"
  then show "parseLine D Q L line (route, out, s)
               = Some (route @ [ActionStep [Text line]], out, s)"
    by (simp add: parseLine_def parseStep_spaces)
next
  assume "line \<noteq> [] \<and> evalSubSteps D Q L (parseStep line) [] [] out s
                        = Some (parts, extra, out', s')"
  then show "parseLine D Q L line (route, out, s)
          = Some (route @ (if parts = [] then [] else [ActionStep parts]) @ extra, out', s')"
    by (simp add: parseLine_def)
qed

theorem parseLine_steps_witness:
  "parseLine exampleData exampleQuest exampleLookup ''  # note'' ([], [], initializeRouteState)
     = Some ([], [], initializeRouteState)
   \<and> (\<exists>out' s'. parseLine exampleData exampleQuest exampleLookup ''{foo}{enter|nowhere}''
                     ([], [], initializeRouteState) = Some ([], out', s'))
   \<and> parseLine exampleData exampleQuest exampleLookup ''  '' ([], [], initializeRouteState)
     = Some ([ActionStep [Text ''  '']], [], initializeRouteState)"
proof -
  have comment: "list_all is_space ''  ''" "\<not> list_ex is_line_terminator '' note''"
    by (simp_all add: is_space_def is_line_terminator_def)
  have tokens: "parseStep ''{foo}{enter|nowhere}'' = map Tok [[''foo''], [''enter'', ''nowhere'']]"
    by (simp add: parseStep.simps lexer_defs)
  have fail: "all_fail exampleData exampleQuest exampleLookup
                [[''foo''], [''enter'', ''nowhere'']] initializeRouteState"
    by (simp add: evaluateAction_def EvaluateEnter_def failure_def example_defs)
  have blank: "''  '' \<noteq> []" by simp
  from parseLine_steps[where ws = "''  ''" and rest = "'' note''"
      and line = "''{foo}{enter|nowhere}''" and acts = "[[''foo''], [''enter'', ''nowhere'']]"
      and D = exampleData and Q = exampleQuest and L = exampleLookup
      and route = "[]" and out = "[]" and s = initializeRouteState]
    parseLine_steps[where line = "''  ''"
      and D = exampleData and Q = exampleQuest and L = exampleLookup
      and route = "[]" and out = "[]" and s = initializeRouteState]
    comment tokens fail blank
  show ?thesis by simp
qed

text \<open>
  C7, as stated, fails for a line of white space: it yields a step.
\<close>

theorem parseRoute_whitespace_counterexample:
  "map_option fst (parseRoute exampleData exampleQuest ['' ''] exampleLookup initializeRouteState)
   = Some [[ActionStep [Text '' '']]]"
  by (simp add: parseRoute_def parseLine_def parseStep.simps lexer_defs)

subsection \<open>The checks after the last document\<close>

text \<open>The explicit waypoints stay free of duplicates.\<close>

lemma Set_add_distinct: "distinct xs \<Longrightarrow> distinct (Set_add x xs)"
  by (simp add: Set_add_def)

lemma explicit_kept:
  "EvaluateKill D action L s = Returns r s' \<Longrightarrow> explicitWaypoints s' = explicitWaypoints s"
  "EvaluateArena action L s = Returns r s' \<Longrightarrow> explicitWaypoints s' = explicitWaypoints s"
  "EvaluateArea D action L s = Returns r s' \<Longrightarrow> explicitWaypoints s' = explicitWaypoints s"
  "EvaluateEnter D action L s = Returns r s' \<Longrightarrow> explicitWaypoints s' = explicitWaypoints s"
  "EvaluateTown D action L s = Returns r s' \<Longrightarrow> explicitWaypoints s' = explicitWaypoints s"
  "EvaluateWaypoint D action L s = Returns r s' \<Longrightarrow> explicitWaypoints s' = explicitWaypoints s"
  "EvaluateSetPortal action L s = Returns r s' \<Longrightarrow> explicitWaypoints s' = explicitWaypoints s"
  "EvaluateUsePortal D action L s = Returns r s' \<Longrightarrow> explicitWaypoints s' = explicitWaypoints s"
  "EvaluateGeneric action L s = Returns r s' \<Longrightarrow> explicitWaypoints s' = explicitWaypoints s"
  "EvaluateTrial action L s = Returns r s' \<Longrightarrow> explicitWaypoints s' = explicitWaypoints s"
  "EvaluateCrafting D action L s = Returns r s' \<Longrightarrow> explicitWaypoints s' = explicitWaypoints s"
  "EvaluateAscend D action L s = Returns r s' \<Longrightarrow> explicitWaypoints s' = explicitWaypoints s"
                 apply (auto simp: EvaluateKill_def success_def failure_def Let_def split: if_splits option.splits property.splits)[1]
                apply (auto simp: EvaluateArena_def success_def failure_def split: if_splits)[1]
               apply (auto simp: EvaluateArea_def success_def failure_def split: if_splits option.splits property.splits)[1]
              apply (auto simp: EvaluateEnter_def success_def failure_def Let_def split: if_splits option.splits property.splits)[1]
             apply (auto simp: EvaluateTown_def success_def failure_def Let_def split: if_splits)[1]
            apply (auto simp: EvaluateWaypoint_def success_def failure_def split: if_splits option.splits property.splits)[1]
           apply (auto simp: EvaluateSetPortal_def success_def failure_def split: if_splits)[1]
          apply (auto simp: EvaluateUsePortal_def success_def failure_def split: if_splits option.splits property.splits)[1]
         apply (auto simp: EvaluateGeneric_def success_def failure_def split: if_splits)[1]
        apply (auto simp: EvaluateTrial_def success_def failure_def split: if_splits)[1]
       apply (auto simp: EvaluateCrafting_def craftingAt_def success_def failure_def split: if_splits option.splits property.splits)[1]
  apply (auto simp: EvaluateAscend_def success_def failure_def Let_def split: if_splits option.splits property.splits)[1]
  done

lemma EvaluateGetWaypoint_explicit:
  "distinct (explicitWaypoints s) \<Longrightarrow> EvaluateGetWaypoint D action L s = Returns r s'
   \<Longrightarrow> distinct (explicitWaypoints s')"
  by (auto simp: EvaluateGetWaypoint_def success_def failure_def Set_add_distinct
      split: if_splits option.splits property.splits)

lemma evaluateAction_explicit_distinct:
  assumes q: "keeps_explicit_set (EvaluateQuest Q)" "keeps_explicit_set (EvaluateQuestText Q)"
      and d: "distinct (explicitWaypoints s)"
      and e: "evaluateAction D Q action L s = Returns r s'"
  shows "distinct (explicitWaypoints s')"
proof -
  from q d have q': "EvaluateQuest Q action L s = Returns r s' \<Longrightarrow> ?thesis"
    "EvaluateQuestText Q action L s = Returns r s' \<Longrightarrow> ?thesis"
    unfolding keeps_explicit_set_def by blast+
  have kept: "explicitWaypoints s' = explicitWaypoints s \<Longrightarrow> ?thesis"
    using d by simp
  have dir: "EvaluateDirection action L s = Returns r s' \<Longrightarrow> ?thesis"
    using EvaluateDirection_frame d by blast
  have unknown: "failure ERROR_INVALID_FORMAT s = Returns r s' \<Longrightarrow> ?thesis"
    using d by (auto simp: failure_def)
  from evaluateAction_dispatch[of D Q action L s] e show ?thesis
    by (elim insertE emptyE)
       (auto intro: q' dir unknown EvaluateGetWaypoint_explicit[OF d]
             dest: explicit_kept[THEN kept])
qed

lemma evalSubSteps_explicit_distinct:
  assumes "keeps_explicit_set (EvaluateQuest Q)" "keeps_explicit_set (EvaluateQuestText Q)"
  shows "distinct (explicitWaypoints s)
         \<Longrightarrow> evalSubSteps D Q L subSteps parts extra out s = Some (parts', extra', out', s')
         \<Longrightarrow> distinct (explicitWaypoints s')"
proof (induction subSteps arbitrary: parts extra out s)
  case Nil
  then show ?case by simp
next
  case (Cons subStep rest)
  show ?case
  proof (cases subStep)
    case (Txt t)
    with Cons show ?thesis by simp
  next
    case (Tok a)
    with Cons.prems(2) obtain r s1 where ev: "evaluateAction D Q a L s = Returns r s1"
      by (auto split: ret.splits)
    from evaluateAction_explicit_distinct[OF assms Cons.prems(1) ev]
    have d1: "distinct (explicitWaypoints s1)" .
    from Cons.prems(2) Tok ev Cons.IH[OF d1] show ?thesis
      by (cases r) auto
  qed
qed

lemma parseLines_explicit_distinct:
  assumes "keeps_explicit_set (EvaluateQuest Q)" "keeps_explicit_set (EvaluateQuestText Q)"
  shows "distinct (explicitWaypoints s)
         \<Longrightarrow> parseLines D Q L routeLines (route, out, s) = Some (route', out', s')
         \<Longrightarrow> distinct (explicitWaypoints s')"
proof (induction routeLines arbitrary: route out s)
  case Nil
  then show ?case by simp
next
  case (Cons line rest)
  from Cons.prems(2) obtain route1 out1 s1 where
    l: "parseLine D Q L line (route, out, s) = Some (route1, out1, s1)"
    and r: "parseLines D Q L rest (route1, out1, s1) = Some (route', out', s')"
    by (auto split: option.splits)
  from l Cons.prems(1) have "distinct (explicitWaypoints s1)"
    by (auto simp: parseLine_def split: if_splits option.splits property.splits
        dest: evalSubSteps_explicit_distinct[OF assms, rotated])
  from Cons.IH[OF this r] show ?case .
qed

lemma parseSources_explicit_distinct:
  assumes "keeps_explicit_set (EvaluateQuest Q)" "keeps_explicit_set (EvaluateQuestText Q)"
  shows "distinct (explicitWaypoints s)
         \<Longrightarrow> parseSources D Q L routeSources (routes, out, s) = Some (routes', out', s')
         \<Longrightarrow> distinct (explicitWaypoints s')"
proof (induction routeSources arbitrary: routes out s)
  case Nil
  then show ?case by simp
next
  case (Cons routeSource rest)
  from Cons.prems(2) obtain route1 out1 s1 where
    l: "parseLines D Q L (split_lines routeSource) ([], out, s) = Some (route1, out1, s1)"
    and r: "parseSources D Q L rest (routes @ [route1], out1, s1) = Some (routes', out', s')"
    by (auto split: option.splits)
  from parseLines_explicit_distinct[OF assms Cons.prems(1) l]
  have "distinct (explicitWaypoints s1)" .
  from Cons.IH[OF this r] show ?case .
qed

lemma join_recipes:
  "rs \<noteq> [] \<Longrightarrow> sep @ join sep rs = concat (map (\<lambda>r. sep @ r) rs)"
  by (induction sep rs rule: join.induct) simp_all

text \<open>
  C9. When the documents have been consumed, \<^verbatim>\<open>parseRoute\<close> prints, after what the
  actions printed, the line "unused waypoint " followed by the id, once for each id of
  the explicit waypoints that is not a used waypoint; and then the line
  "missing crafting area " followed by the id and, each after ", ", the recipes, once for
  each entry of the area table that has recipes and whose id is not a crafting area. It
  prints nothing else, and returns the routes of the documents. The explicit waypoints
  are a \<^verbatim>\<open>Set\<close> and the area table an object: no id and no key occurs twice, which the
  two evaluators of \<^verbatim>\<open>./quest\<close> are assumed to keep so.
\<close>

theorem post_pass_diagnostics:
  fixes D :: Data and s' :: RouteState
    and ws :: "string list" and cs :: "(string \<times> Area) list"
  defines "ws \<equiv> filter (\<lambda>waypoint. waypoint \<notin> set (usedWaypoints s')) (explicitWaypoints s')"
      and "cs \<equiv> filter (\<lambda>(key, area). crafting_recipes area \<noteq> []
                                     \<and> Some (id' area) \<notin> set (craftingAreas s'))
                         (areas D)"
  assumes "keeps_explicit_set (EvaluateQuest Q)" and "keeps_explicit_set (EvaluateQuestText Q)"
      and "distinct (explicitWaypoints s)"
      and "distinct (map fst (areas D))"
      and "parseSources D Q L routeSources ([], [], s) = Some (routes, out, s')"
  shows "parseRoute D Q routeSources L s
           = Some (routes,
                   out @ map (\<lambda>waypoint. ''unused waypoint '' @ waypoint) ws
                       @ map (\<lambda>(key, area).
                                ''missing crafting area '' @ id' area
                                  @ concat (map (\<lambda>recipe. '', '' @ recipe)
                                                (crafting_recipes area)))
                             cs,
                   s')
         \<and> distinct ws
         \<and> set ws = set (explicitWaypoints s') - set (usedWaypoints s')
         \<and> distinct (map fst cs)
         \<and> set cs = {(key, area) \<in> set (areas D).
                       crafting_recipes area \<noteq> []
                       \<and> Some (id' area) \<notin> set (craftingAreas s')}"
proof (intro conjI)
  have ws: "unusedWaypoints s' = ws"
    by (simp add: unusedWaypoints_def ws_def Set_has_def)
  have cs: "missingCraftingAreas D s' = cs"
    by (simp add: missingCraftingAreas_def cs_def Set_has_def)
  have rendered: "missingCraftingAreaMessage area
                = ''missing crafting area '' @ id' area
                    @ concat (map (\<lambda>recipe. '', '' @ recipe) (crafting_recipes area))"
    if "(key, area) \<in> set cs" for key area
  proof -
    from that have "crafting_recipes area \<noteq> []"
      by (simp add: cs_def)
    from join_recipes[OF this, of "'', ''"] show ?thesis
      by (simp add: missingCraftingAreaMessage_def)
  qed
  have "map (\<lambda>(key, area). missingCraftingAreaMessage area) cs
          = map (\<lambda>(key, area). ''missing crafting area '' @ id' area
                   @ concat (map (\<lambda>recipe. '', '' @ recipe) (crafting_recipes area))) cs"
    using rendered by (intro map_cong) auto
  moreover have "map unusedWaypointMessage ws
                   = map (\<lambda>waypoint. ''unused waypoint '' @ waypoint) ws"
    by (simp add: unusedWaypointMessage_def)
  ultimately show "parseRoute D Q routeSources L s
           = Some (routes,
                   out @ map (\<lambda>waypoint. ''unused waypoint '' @ waypoint) ws
                       @ map (\<lambda>(key, area).
                                ''missing crafting area '' @ id' area
                                  @ concat (map (\<lambda>recipe. '', '' @ recipe)
                                                (crafting_recipes area)))
                             cs,
                   s')"
    using assms(7) by (simp add: parseRoute_def ws cs)
  from parseSources_explicit_distinct[OF assms(3,4,5,7)]
  show "distinct ws"
    by (simp add: ws_def)
  show "set ws = set (explicitWaypoints s') - set (usedWaypoints s')"
    by (auto simp: ws_def)
  show "distinct (map fst cs)"
    using assms(6) by (simp add: cs_def distinct_map_filter)
  show "set cs = {(key, area) \<in> set (areas D).
                   crafting_recipes area \<noteq> [] \<and> Some (id' area) \<notin> set (craftingAreas s')}"
    by (auto simp: cs_def)
qed

theorem post_pass_diagnostics_witness:
  "parseRoute exampleData exampleQuest [''{enter|1_1_town}{enter|1_1_2}{get_waypoint}'']
     exampleLookup initializeRouteState
   = Some ([[ActionStep [Act (EnterAction ''1_1_town''), Act (EnterAction ''1_1_2''),
                         Act GetWaypointAction]]],
           [''unused waypoint 1_1_2'',
            ''missing crafting area 1_1_2, Fire Resistance, Life''],
           afterCoast)"
proof -
  have run: "parseSources exampleData exampleQuest exampleLookup
          [''{enter|1_1_town}{enter|1_1_2}{get_waypoint}''] ([], [], initializeRouteState)
        = Some ([[ActionStep [Act (EnterAction ''1_1_town''), Act (EnterAction ''1_1_2''),
                              Act GetWaypointAction]]], [], afterCoast)"
    by (simp add: parseLine_def parseStep.simps lexer_defs evaluateAction_def
        EvaluateEnter_def EvaluateGetWaypoint_def success_def failure_def Set_add_def
        Set_has_def prop_key_def afterCoast_def example_defs)
  have sets: "distinct (explicitWaypoints initializeRouteState)"
    "distinct (map fst (areas exampleData))"
    by (simp_all add: initializeRouteState_def exampleData_def)
  from post_pass_diagnostics[OF exampleQuest_facts(5,6) sets run] show ?thesis
    by (simp add: afterCoast_def example_defs)
qed

subsection \<open>Directions\<close>

text \<open>Rounding at known values: the double of \<^verbatim>\<open>0.1\<close>, and a tie that goes to the even
  significand.\<close>

lemma rounding_examples:
  "parseFloat ''0.1'' = Finite (3602879701896397 / 36028797018963968)"
  "parseFloat ''9007199254740993'' = Finite 9007199254740992"
  "parseFloat '' 4.5e1deg'' = Finite 45"
  by code_simp+

lemma parsed_examples:
  "parseFloat ''-45'' = Finite (- 45)" "parseFloat ''405'' = Finite 405"
  "parseFloat ''360'' = Finite 360" "parseFloat ''50'' = Finite 50"
  "parseFloat ''north'' = NaN"
  by code_simp+

lemma arithmetic_examples:
  "js_rem (Finite (- 45)) (Finite 360) = Finite (- 45)"
  "js_add (Finite (- 45)) (Finite 360) = Finite 315"
  "js_rem (Finite 315) (Finite 45) = Finite 0"
  "Math_floor (js_div (Finite 315) 45) = Finite 7"
  "js_rem (Finite 405) (Finite 360) = Finite 45"
  "js_rem (Finite 45) (Finite 45) = Finite 0"
  "Math_floor (js_div (Finite 45) 45) = Finite 1"
  "js_rem (Finite 360) (Finite 360) = Finite 0"
  "js_rem (Finite 0) (Finite 45) = Finite 0"
  "Math_floor (js_div (Finite 0) 45) = Finite 0"
  "js_rem (Finite 50) (Finite 360) = Finite 50"
  "js_rem (Finite 50) (Finite 45) = Finite 5"
  by code_simp+

text \<open>The examples of the specification: \<^verbatim>\<open>-45\<close>, \<^verbatim>\<open>405\<close>, \<^verbatim>\<open>360\<close>, \<^verbatim>\<open>50\<close>.\<close>

lemma dir_examples:
  "EvaluateDirection [''dir'', ''-45''] L s = success (DirectionAction (Finite 7)) s"
  "EvaluateDirection [''dir'', ''405''] L s = success (DirectionAction (Finite 1)) s"
  "EvaluateDirection [''dir'', ''360''] L s = success (DirectionAction (Finite 0)) s"
  "EvaluateDirection [''dir'', ''50''] L s = failure ''dir value must be in intervals of 45'' s"
  "EvaluateDirection [''dir'', ''north''] L s = failure ''dir value is not a number'' s"
  by (simp_all add: EvaluateDirection_def parsed_examples arithmetic_examples isNaN_def
      js_lt_def)

text \<open>The steps of \<^verbatim>\<open>EvaluateDirection\<close> at the argument \<^verbatim>\<open>-1e-14\<close>.\<close>

lemma tiny_parsed:
  "parseFloat ''-1e-14'' = Finite (- (6338253001141147 / 633825300114114700748351602688))"
  by code_simp

lemma tiny_remainder:
  "js_rem (Finite (- (6338253001141147 / 633825300114114700748351602688))) (Finite 360)
     = Finite (- (6338253001141147 / 633825300114114700748351602688))"
  by code_simp

lemma tiny_sum:
  "js_add (Finite (- (6338253001141147 / 633825300114114700748351602688))) (Finite 360)
     = Finite 360"
  by code_simp

lemma full_turn:
  "js_rem (Finite 360) (Finite 45) = Finite 0"
  "Math_floor (js_div (Finite 360) 45) = Finite 8"
  by code_simp+

text \<open>
  C6. The claim has the direction normalised into [0,360) and the index in 0..7. For the
  argument \<^verbatim>\<open>-1e-14\<close> the code returns the index 8: the remainder is the small negative
  number itself, and adding 360 to it rounds to the double 360.
\<close>

theorem dir_tiny_negative_index:
  "evaluateAction D Q [''dir'', ''-1e-14''] L s = success (DirectionAction (Finite 8)) s"
  by (simp add: evaluateAction_def EvaluateDirection_def tiny_parsed tiny_remainder tiny_sum
      full_turn isNaN_def js_lt_def)

end
